theory Spec2Isabelle
  imports Complex_Main
begin

section \<open>Python values and the outside world\<close>

text \<open>
  Python floats are modelled as reals and Python integers as \<open>int\<close>. A call into
  psutil, pynvml, the file system or a subprocess either returns a value or raises;
  its outcome is a value of \<open>py_exception + 'a\<close>, \<open>Inl\<close> for the raise. Every
  exception listed here derives from Python's \<open>Exception\<close>, so both
  \<open>except Exception\<close> and a bare \<open>except\<close> catch it.
\<close>

datatype py_exception = OSError | ValueError | IndexError | NVMLError | RuntimeError

type_synonym 'a outcome = "py_exception + 'a"

text \<open>The named tuple of \<open>psutil.virtual_memory()\<close>: fields total, used, percent.\<close>

record svmem =
  svmem_total :: int
  svmem_used :: int
  svmem_percent :: real

text \<open>The named tuple of \<open>psutil.cpu_freq()\<close>: field current.\<close>

record scpufreq =
  freq_current :: real

text \<open>The structures of NVML: utilization rates (field gpu) and memory (fields used, total).\<close>

record nvml_utilization =
  util_gpu :: int

record nvml_memory =
  nvml_used :: int
  nvml_total :: int

type_synonym handle = nat

text \<open>
  The outcomes of the external calls during one run of the constructor or of
  \<open>update_all\<close>. \<open>proc_cpuinfo\<close> is opening /proc/cpuinfo and reading its lines,
  \<open>lspci\<close> the standard output of \<open>subprocess.run(['lspci', '-v'])\<close>,
  \<open>gt_cur_freq_mhz\<close> is \<open>int(f.read().strip())\<close> on the sysfs file of the Intel GPU
  (the open, the read and the conversion can each raise), and
  \<open>nvmlDeviceGetName\<close> is the device name after \<open>.decode('utf-8')\<close>.
\<close>

record env =
  proc_cpuinfo :: "string list outcome"
  psutil_cpu_count :: "bool \<Rightarrow> int option outcome"
  lspci :: "string outcome"
  psutil_cpu_percent :: "real outcome"
  psutil_cpu_freq :: "scpufreq option outcome"
  psutil_virtual_memory :: "svmem outcome"
  gt_cur_freq_mhz :: "int outcome"
  nvmlInit :: "unit outcome"
  nvmlDeviceGetHandleByIndex :: "nat \<Rightarrow> handle outcome"
  nvmlDeviceGetName :: "handle \<Rightarrow> string outcome"
  nvmlDeviceGetUtilizationRates :: "handle \<Rightarrow> nvml_utilization outcome"
  nvmlDeviceGetMemoryInfo :: "handle \<Rightarrow> nvml_memory outcome"
  nvmlDeviceGetTemperature :: "handle \<Rightarrow> int outcome"
  nvmlShutdown :: "unit outcome"

text \<open>The two module-level flags, set once by the guarded imports.\<close>

record flags =
  NVIDIA_AVAILABLE :: bool
  INTEL_GPU_AVAILABLE :: bool

text \<open>The external calls a monitor makes, recorded in the order they are made.\<close>

datatype call =
    Open_proc_cpuinfo
  | Psutil_cpu_count bool
  | Run_lspci
  | Psutil_cpu_percent
  | Psutil_cpu_freq
  | Psutil_virtual_memory
  | Open_gt_cur_freq_mhz
  | NvmlInit
  | NvmlDeviceGetHandleByIndex nat
  | NvmlDeviceGetName handle
  | NvmlDeviceGetUtilizationRates handle
  | NvmlDeviceGetMemoryInfo handle
  | NvmlDeviceGetTemperature handle
  | NvmlShutdown

fun is_nvml :: "call \<Rightarrow> bool" where
  "is_nvml NvmlInit = True"
| "is_nvml (NvmlDeviceGetHandleByIndex i) = True"
| "is_nvml (NvmlDeviceGetName h) = True"
| "is_nvml (NvmlDeviceGetUtilizationRates h) = True"
| "is_nvml (NvmlDeviceGetMemoryInfo h) = True"
| "is_nvml (NvmlDeviceGetTemperature h) = True"
| "is_nvml NvmlShutdown = True"
| "is_nvml c = False"

section \<open>The data class and the monitor\<close>

text \<open>
  The data class \<open>SystemInfo\<close>. \<open>psutil.cpu_count\<close> may return None, so the two
  counts are optional integers.
\<close>

record SystemInfo =
  cpu_name :: string
  cpu_cores :: "int option"
  cpu_threads :: "int option"
  cpu_usage :: real
  cpu_freq :: real
  ram_total :: real
  ram_used :: real
  ram_percent :: real
  gpu_intel_name :: string
  gpu_intel_usage :: real
  gpu_intel_mem_used :: real
  gpu_nvidia_name :: string
  gpu_nvidia_usage :: real
  gpu_nvidia_mem_used :: real
  gpu_nvidia_mem_total :: real
  gpu_nvidia_temp :: real

definition SystemInfo_default :: SystemInfo where
  "SystemInfo_default =
     \<lparr>cpu_name = [], cpu_cores = Some 0, cpu_threads = Some 0, cpu_usage = 0, cpu_freq = 0,
      ram_total = 0, ram_used = 0, ram_percent = 0,
      gpu_intel_name = [], gpu_intel_usage = 0, gpu_intel_mem_used = 0,
      gpu_nvidia_name = [], gpu_nvidia_usage = 0, gpu_nvidia_mem_used = 0,
      gpu_nvidia_mem_total = 0, gpu_nvidia_temp = 0\<rparr>"

text \<open>
  A \<open>SystemMonitor\<close> object: its one attribute \<open>system_info\<close>, mutated in place by
  every method, together with the record of the external calls made so far.
\<close>

record SystemMonitor =
  system_info :: SystemInfo
  trace :: "call list"

definition called :: "call \<Rightarrow> SystemMonitor \<Rightarrow> SystemMonitor" where
  "called c m = m\<lparr>trace := trace m @ [c]\<rparr>"

definition assign :: "(SystemInfo \<Rightarrow> SystemInfo) \<Rightarrow> SystemMonitor \<Rightarrow> SystemMonitor" where
  "assign f m = m\<lparr>system_info := f (system_info m)\<rparr>"

text \<open>
  A method that lets an exception escape returns \<open>Inl\<close> with the exception and the
  monitor as the assignments made before the raise left it.
\<close>

type_synonym result = "(py_exception \<times> SystemMonitor) + SystemMonitor"

section \<open>The update methods\<close>

definition update_cpu_info :: "env \<Rightarrow> SystemMonitor \<Rightarrow> result" where
  "update_cpu_info e m =
     (let m1 = called Psutil_cpu_percent m in
      case psutil_cpu_percent e of
        Inl x \<Rightarrow> Inl (x, m1)
      | Inr c \<Rightarrow>
          (let m2 = called Psutil_cpu_freq (assign (\<lambda>i. i\<lparr>cpu_usage := c\<rparr>) m1) in
           case psutil_cpu_freq e of
             Inl x \<Rightarrow> Inr (assign (\<lambda>i. i\<lparr>cpu_freq := 0\<rparr>) m2)
           | Inr None \<Rightarrow> Inr m2
           | Inr (Some f) \<Rightarrow> Inr (assign (\<lambda>i. i\<lparr>cpu_freq := freq_current f\<rparr>) m2)))"

definition update_ram_info :: "env \<Rightarrow> SystemMonitor \<Rightarrow> result" where
  "update_ram_info e m =
     (let m1 = called Psutil_virtual_memory m in
      case psutil_virtual_memory e of
        Inl x \<Rightarrow> Inl (x, m1)
      | Inr mem \<Rightarrow>
          Inr (assign (\<lambda>i. i\<lparr>ram_total := real_of_int (svmem_total mem) / 1024 ^ 3,
                              ram_used := real_of_int (svmem_used mem) / 1024 ^ 3,
                              ram_percent := svmem_percent mem\<rparr>) m1))"

definition update_intel_gpu_info :: "flags \<Rightarrow> env \<Rightarrow> SystemMonitor \<Rightarrow> SystemMonitor" where
  "update_intel_gpu_info fl e m =
     (if INTEL_GPU_AVAILABLE fl
      then assign (\<lambda>i. i\<lparr>gpu_intel_usage := 0, gpu_intel_mem_used := 0\<rparr>) m
      else
        (let m1 = called Open_gt_cur_freq_mhz m in
         case gt_cur_freq_mhz e of
           Inr freq \<Rightarrow> assign (\<lambda>i. i\<lparr>gpu_intel_usage := min (real_of_int freq / 1000) 100\<rparr>) m1
         | Inl x \<Rightarrow> assign (\<lambda>i. i\<lparr>gpu_intel_usage := 0\<rparr>) m1))"

definition update_nvidia_gpu_info :: "flags \<Rightarrow> env \<Rightarrow> SystemMonitor \<Rightarrow> SystemMonitor" where
  "update_nvidia_gpu_info fl e m =
     (if \<not> NVIDIA_AVAILABLE fl then m
      else
        (let m1 = called NvmlInit m in
         case nvmlInit e of
           Inl x \<Rightarrow> m1
         | Inr u \<Rightarrow>
        (let m2 = called (NvmlDeviceGetHandleByIndex 0) m1 in
         case nvmlDeviceGetHandleByIndex e 0 of
           Inl x \<Rightarrow> m2
         | Inr h \<Rightarrow>
        (let m3 = called (NvmlDeviceGetUtilizationRates h) m2 in
         case nvmlDeviceGetUtilizationRates e h of
           Inl x \<Rightarrow> m3
         | Inr utilization \<Rightarrow>
        (let m4 = called (NvmlDeviceGetMemoryInfo h)
                    (assign (\<lambda>i. i\<lparr>gpu_nvidia_usage := real_of_int (util_gpu utilization)\<rparr>) m3) in
         case nvmlDeviceGetMemoryInfo e h of
           Inl x \<Rightarrow> m4
         | Inr memory \<Rightarrow>
        (let m5 = called (NvmlDeviceGetTemperature h)
                    (assign (\<lambda>i. i\<lparr>gpu_nvidia_mem_used := real_of_int (nvml_used memory) / 1024 ^ 3,
                                      gpu_nvidia_mem_total := real_of_int (nvml_total memory) / 1024 ^ 3\<rparr>) m4);
             m6 = (case nvmlDeviceGetTemperature e h of
                     Inr t \<Rightarrow> assign (\<lambda>i. i\<lparr>gpu_nvidia_temp := real_of_int t\<rparr>) m5
                   | Inl x \<Rightarrow> assign (\<lambda>i. i\<lparr>gpu_nvidia_temp := 0\<rparr>) m5);
             m7 = called NvmlShutdown m6 in
         case nvmlShutdown e of
           Inl x \<Rightarrow> m7
         | Inr u \<Rightarrow> m7))))))"

definition update_all :: "flags \<Rightarrow> env \<Rightarrow> SystemMonitor \<Rightarrow> result" where
  "update_all fl e m =
     (case update_cpu_info e m of
        Inl x \<Rightarrow> Inl x
      | Inr m1 \<Rightarrow>
          (case update_ram_info e m1 of
             Inl x \<Rightarrow> Inl x
           | Inr m2 \<Rightarrow> Inr (update_nvidia_gpu_info fl e (update_intel_gpu_info fl e m2))))"

text \<open>
  The first iterations of \<open>update_loop\<close> (\<open>while True: monitor.update_all();
  time.sleep(2)\<close>), one environment per iteration; an exception that escapes
  \<open>update_all\<close> ends the loop.
\<close>

fun update_loop :: "flags \<Rightarrow> env list \<Rightarrow> SystemMonitor \<Rightarrow> result" where
  "update_loop fl [] m = Inr m"
| "update_loop fl (e # es) m =
     (case update_all fl e m of
        Inl x \<Rightarrow> Inl x
      | Inr m' \<Rightarrow> update_loop fl es m')"

text \<open>
  The update thread and the request handlers share the one \<open>SystemInfo\<close> object and
  no lock. \<open>cycle_points\<close> lists the states of that object at the boundaries of the
  four calls of \<open>update_all\<close>: before the cycle, after each call that returned, and
  at the raise when one escapes. A request served during the cycle reads one of them
  (or a state in the middle of a call, which this list leaves out).
\<close>

definition cycle_points :: "flags \<Rightarrow> env \<Rightarrow> SystemMonitor \<Rightarrow> SystemMonitor list" where
  "cycle_points fl e m =
     m # (case update_cpu_info e m of
            Inl (x, m') \<Rightarrow> [m']
          | Inr m1 \<Rightarrow>
              m1 # (case update_ram_info e m1 of
                      Inl (x, m') \<Rightarrow> [m']
                    | Inr m2 \<Rightarrow>
                        [m2, update_intel_gpu_info fl e m2,
                         update_nvidia_gpu_info fl e (update_intel_gpu_info fl e m2)]))"

section \<open>The constructor\<close>

text \<open>Python's \<open>sub in s\<close> on strings.\<close>

fun contains :: "string \<Rightarrow> string \<Rightarrow> bool" where
  "contains sub [] = (sub = [])"
| "contains sub (c # cs) = (take (length sub) (c # cs) = sub \<or> contains sub cs)"

text \<open>Python's \<open>s.split(sep)\<close> for a separator of one character.\<close>

fun str_split :: "char \<Rightarrow> string \<Rightarrow> string list" where
  "str_split sep [] = [[]]"
| "str_split sep (c # cs) =
     (if c = sep then [] # str_split sep cs
      else (case str_split sep cs of
              [] \<Rightarrow> [[c]]
            | w # ws \<Rightarrow> (c # w) # ws))"

text \<open>Python's \<open>xs[i]\<close> for an index that is not negative.\<close>

definition item :: "'a list \<Rightarrow> nat \<Rightarrow> 'a outcome" where
  "item xs i = (if i < length xs then Inr (xs ! i) else Inl IndexError)"

text \<open>
  Python's \<open>s.strip()\<close> on ASCII text: the white space characters below 128 are
  9 to 13 and 28 to 32.
\<close>

definition isspace :: "char \<Rightarrow> bool" where
  "isspace c = (let n = (of_char c :: nat) in (9 \<le> n \<and> n \<le> 13) \<or> (28 \<le> n \<and> n \<le> 32))"

definition str_strip :: "string \<Rightarrow> string" where
  "str_strip s = rev (dropWhile isspace (rev (dropWhile isspace s)))"

text \<open>The loop over the lines of /proc/cpuinfo: the name found, if any, or the raise.\<close>

fun find_model_name :: "string list \<Rightarrow> string option outcome" where
  "find_model_name [] = Inr None"
| "find_model_name (line # rest) =
     (if contains ''model name'' line
      then (case item (str_split (CHR '':'') line) 1 of
              Inl x \<Rightarrow> Inl x
            | Inr v \<Rightarrow> Inr (Some (str_strip v)))
      else find_model_name rest)"

definition init_cpu_info :: "env \<Rightarrow> SystemMonitor \<Rightarrow> SystemMonitor" where
  "init_cpu_info e m =
     (let m1 = called Open_proc_cpuinfo m in
      case proc_cpuinfo e of
        Inl x \<Rightarrow> m1
      | Inr lines \<Rightarrow>
     (case find_model_name lines of
        Inl x \<Rightarrow> m1
      | Inr found \<Rightarrow>
     (let m2 = called (Psutil_cpu_count False)
                 (case found of
                    None \<Rightarrow> m1
                  | Some n \<Rightarrow> assign (\<lambda>i. i\<lparr>cpu_name := n\<rparr>) m1) in
      case psutil_cpu_count e False of
        Inl x \<Rightarrow> m2
      | Inr cores \<Rightarrow>
     (let m3 = called (Psutil_cpu_count True) (assign (\<lambda>i. i\<lparr>cpu_cores := cores\<rparr>) m2) in
      case psutil_cpu_count e True of
        Inl x \<Rightarrow> m3
      | Inr threads \<Rightarrow> assign (\<lambda>i. i\<lparr>cpu_threads := threads\<rparr>) m3))))"

text \<open>The loop over the lines of the lspci output.\<close>

fun find_intel_gpu :: "string list \<Rightarrow> string option outcome" where
  "find_intel_gpu [] = Inr None"
| "find_intel_gpu (line # rest) =
     (if contains ''Intel'' line \<and>
         (contains ''Graphics'' line \<or> contains ''UHD'' line \<or> contains ''HD Graphics'' line)
      then (case item (str_split (CHR '':'') line) 2 of
              Inl x \<Rightarrow> Inl x
            | Inr v \<Rightarrow> Inr (Some (str_strip v)))
      else find_intel_gpu rest)"

definition init_gpu_info :: "flags \<Rightarrow> env \<Rightarrow> SystemMonitor \<Rightarrow> SystemMonitor" where
  "init_gpu_info fl e m =
     (let m1 = called Run_lspci m;
          m2 = (case lspci e of
                  Inl x \<Rightarrow> m1
                | Inr stdout \<Rightarrow>
                    (case find_intel_gpu (str_split (CHR 0x0A) stdout) of
                       Inl x \<Rightarrow> m1
                     | Inr None \<Rightarrow> m1
                     | Inr (Some n) \<Rightarrow> assign (\<lambda>i. i\<lparr>gpu_intel_name := n\<rparr>) m1)) in
      if NVIDIA_AVAILABLE fl
      then
        (let m3 = called NvmlInit m2 in
         case nvmlInit e of
           Inl x \<Rightarrow> m3
         | Inr u \<Rightarrow>
        (let m4 = called (NvmlDeviceGetHandleByIndex 0) m3 in
         case nvmlDeviceGetHandleByIndex e 0 of
           Inl x \<Rightarrow> m4
         | Inr h \<Rightarrow>
        (let m5 = called (NvmlDeviceGetName h) m4 in
         case nvmlDeviceGetName e h of
           Inl x \<Rightarrow> m5
         | Inr n \<Rightarrow>
        (let m6 = called NvmlShutdown (assign (\<lambda>i. i\<lparr>gpu_nvidia_name := n\<rparr>) m5) in
         case nvmlShutdown e of
           Inl x \<Rightarrow> m6
         | Inr u \<Rightarrow> m6))))
      else m2)"

text \<open>\<open>SystemMonitor()\<close>: the default data class, then the two probes.\<close>

definition new_SystemMonitor :: "flags \<Rightarrow> env \<Rightarrow> SystemMonitor" where
  "new_SystemMonitor fl e =
     init_gpu_info fl e (init_cpu_info e \<lparr>system_info = SystemInfo_default, trace = []\<rparr>)"

section \<open>The JSON endpoint\<close>

text \<open>
  The handler of \<open>/data\<close> reads ten attributes of the monitor's \<open>system_info\<close> into a
  dictionary, which \<open>jsonify\<close> turns into a JSON object: here the list of its members.
\<close>

definition get_data :: "SystemMonitor \<Rightarrow> (string \<times> real) list" where
  "get_data m =
     [(''cpu_usage'', cpu_usage (system_info m)),
      (''cpu_freq'', cpu_freq (system_info m)),
      (''ram_used'', ram_used (system_info m)),
      (''ram_total'', ram_total (system_info m)),
      (''ram_percent'', ram_percent (system_info m)),
      (''gpu_intel_usage'', gpu_intel_usage (system_info m)),
      (''gpu_nvidia_usage'', gpu_nvidia_usage (system_info m)),
      (''gpu_nvidia_mem_used'', gpu_nvidia_mem_used (system_info m)),
      (''gpu_nvidia_mem_total'', gpu_nvidia_mem_total (system_info m)),
      (''gpu_nvidia_temp'', gpu_nvidia_temp (system_info m))]"

section \<open>Properties of a snapshot\<close>

text \<open>The monitor object after a call, whether the call returned or raised.\<close>

fun monitor_of :: "result \<Rightarrow> SystemMonitor" where
  "monitor_of (Inl (x, m)) = m"
| "monitor_of (Inr m) = m"

text \<open>The identification fields, which the constructor probes.\<close>

definition static_fields :: "SystemInfo \<Rightarrow> string \<times> int option \<times> int option \<times> string \<times> string" where
  "static_fields i = (cpu_name i, cpu_cores i, cpu_threads i, gpu_intel_name i, gpu_nvidia_name i)"

text \<open>The four fields that the NVIDIA update assigns.\<close>

definition nvidia_fields :: "SystemInfo \<Rightarrow> real \<times> real \<times> real \<times> real" where
  "nvidia_fields i =
     (gpu_nvidia_usage i, gpu_nvidia_mem_used i, gpu_nvidia_mem_total i, gpu_nvidia_temp i)"

definition in_percent_range :: "real \<Rightarrow> bool" where
  "in_percent_range p = (0 \<le> p \<and> p \<le> 100)"

text \<open>
  The invariant of the data model: used memory within total memory, for the system
  and for the NVIDIA GPU, and the four usage percentages within 0 and 100.
\<close>

definition snapshot_ok :: "SystemInfo \<Rightarrow> bool" where
  "snapshot_ok i =
     (ram_used i \<le> ram_total i \<and>
      gpu_nvidia_mem_used i \<le> gpu_nvidia_mem_total i \<and>
      in_percent_range (cpu_usage i) \<and>
      in_percent_range (ram_percent i) \<and>
      in_percent_range (gpu_intel_usage i) \<and>
      in_percent_range (gpu_nvidia_usage i))"

text \<open>
  Valid provider fragments: what each source returns in a cycle is itself in range.
  psutil reports a CPU percentage and a memory percentage within 0 and 100 and used
  bytes within total bytes, the sysfs file holds a frequency that is not negative,
  and NVML reports a utilization within 0 and 100 and used bytes within total bytes.
\<close>

definition valid_fragments :: "env \<Rightarrow> bool" where
  "valid_fragments e =
     ((case psutil_cpu_percent e of
         Inl x \<Rightarrow> True
       | Inr c \<Rightarrow> in_percent_range c) \<and>
      (case psutil_virtual_memory e of
         Inl x \<Rightarrow> True
       | Inr mem \<Rightarrow> svmem_used mem \<le> svmem_total mem \<and> in_percent_range (svmem_percent mem)) \<and>
      (case gt_cur_freq_mhz e of
         Inl x \<Rightarrow> True
       | Inr freq \<Rightarrow> 0 \<le> freq) \<and>
      (case nvmlDeviceGetHandleByIndex e 0 of
         Inl x \<Rightarrow> True
       | Inr h \<Rightarrow>
           (case nvmlDeviceGetUtilizationRates e h of
              Inl x \<Rightarrow> True
            | Inr utilization \<Rightarrow> in_percent_range (real_of_int (util_gpu utilization))) \<and>
           (case nvmlDeviceGetMemoryInfo e h of
              Inl x \<Rightarrow> True
            | Inr memory \<Rightarrow> nvml_used memory \<le> nvml_total memory)))"

text \<open>
  No NVIDIA GPU in a cycle: the vendor library is not installed, or it finds no
  driver or no device. No Intel GPU: the sysfs file of its driver cannot be read.
\<close>

definition nvidia_absent :: "flags \<Rightarrow> env \<Rightarrow> bool" where
  "nvidia_absent fl e =
     (\<not> NVIDIA_AVAILABLE fl \<or> isl (nvmlInit e) \<or> isl (nvmlDeviceGetHandleByIndex e 0))"

definition intel_gpu_absent :: "env \<Rightarrow> bool" where
  "intel_gpu_absent e = isl (gt_cur_freq_mhz e)"

section \<open>Example machines\<close>

definition ex_flags :: flags where
  "ex_flags = \<lparr>NVIDIA_AVAILABLE = True, INTEL_GPU_AVAILABLE = False\<rparr>"

definition ex_flags_no_pynvml :: flags where
  "ex_flags_no_pynvml = \<lparr>NVIDIA_AVAILABLE = False, INTEL_GPU_AVAILABLE = False\<rparr>"

text \<open>A machine with both GPUs, 16 GB of memory of which 8 GB are used.\<close>

definition ex_env_1 :: env where
  "ex_env_1 =
     \<lparr>proc_cpuinfo = Inr [''processor : 0'' @ [CHR 0x0A], ''model name : Core i5'' @ [CHR 0x0A]],
      psutil_cpu_count = (\<lambda>logical. Inr (Some (if logical then 8 else 4))),
      lspci = Inr (''00:02.0 VGA: Intel UHD Graphics'' @ [CHR 0x0A] @ ''01:00.0 3D: NVIDIA''),
      psutil_cpu_percent = Inr 12.5,
      psutil_cpu_freq = Inr (Some \<lparr>freq_current = 2400\<rparr>),
      psutil_virtual_memory =
        Inr \<lparr>svmem_total = 16 * 1024 ^ 3, svmem_used = 8 * 1024 ^ 3, svmem_percent = 62.5\<rparr>,
      gt_cur_freq_mhz = Inr 300,
      nvmlInit = Inr (),
      nvmlDeviceGetHandleByIndex = (\<lambda>index. Inr 1),
      nvmlDeviceGetName = (\<lambda>h. Inr ''GeForce''),
      nvmlDeviceGetUtilizationRates = (\<lambda>h. Inr \<lparr>util_gpu = 55\<rparr>),
      nvmlDeviceGetMemoryInfo = (\<lambda>h. Inr \<lparr>nvml_used = 2 * 1024 ^ 3, nvml_total = 4 * 1024 ^ 3\<rparr>),
      nvmlDeviceGetTemperature = (\<lambda>h. Inr 70),
      nvmlShutdown = Inr ()\<rparr>"

text \<open>The same machine two seconds later, busier and hotter.\<close>

definition ex_env_2 :: env where
  "ex_env_2 =
     ex_env_1\<lparr>psutil_cpu_percent := Inr 90,
              psutil_virtual_memory :=
                Inr \<lparr>svmem_total = 16 * 1024 ^ 3, svmem_used = 12 * 1024 ^ 3, svmem_percent = 80\<rparr>,
              nvmlDeviceGetUtilizationRates := (\<lambda>h. Inr \<lparr>util_gpu = 80\<rparr>),
              nvmlDeviceGetMemoryInfo := (\<lambda>h. Inr \<lparr>nvml_used = 3 * 1024 ^ 3, nvml_total = 4 * 1024 ^ 3\<rparr>),
              nvmlDeviceGetTemperature := (\<lambda>h. Inr 75)\<rparr>"

text \<open>That later cycle with the NVIDIA driver failing at \<open>nvmlInit\<close>.\<close>

definition ex_env_nvml_down :: env where
  "ex_env_nvml_down = ex_env_2\<lparr>nvmlInit := Inl NVMLError\<rparr>"

text \<open>The first cycle with only the temperature query failing.\<close>

definition ex_env_no_temperature :: env where
  "ex_env_no_temperature = ex_env_1\<lparr>nvmlDeviceGetTemperature := (\<lambda>h. Inl NVMLError)\<rparr>"

text \<open>The vendor library is installed and the machine has no NVIDIA device.\<close>

definition ex_env_no_device :: env where
  "ex_env_no_device = ex_env_1\<lparr>nvmlDeviceGetHandleByIndex := (\<lambda>index. Inl NVMLError)\<rparr>"

text \<open>A machine with no GPU at all: no NVIDIA driver, no Intel sysfs file.\<close>

definition ex_env_no_gpu :: env where
  "ex_env_no_gpu = ex_env_1\<lparr>nvmlInit := Inl NVMLError, gt_cur_freq_mhz := Inl OSError\<rparr>"

text \<open>The monitor of the example machine as constructed, and after its first cycle.\<close>

definition ex_monitor_0 :: SystemMonitor where
  "ex_monitor_0 = new_SystemMonitor ex_flags ex_env_1"

definition ex_monitor_1 :: SystemMonitor where
  "ex_monitor_1 = monitor_of (update_all ex_flags ex_env_1 ex_monitor_0)"

section \<open>How each method changes the monitor\<close>

lemmas step_defs = called_def assign_def Let_def

lemma update_nvidia_gpu_info_frame:
  "cpu_name (system_info (update_nvidia_gpu_info fl e m)) = cpu_name (system_info m)"
  "cpu_cores (system_info (update_nvidia_gpu_info fl e m)) = cpu_cores (system_info m)"
  "cpu_threads (system_info (update_nvidia_gpu_info fl e m)) = cpu_threads (system_info m)"
  "cpu_usage (system_info (update_nvidia_gpu_info fl e m)) = cpu_usage (system_info m)"
  "cpu_freq (system_info (update_nvidia_gpu_info fl e m)) = cpu_freq (system_info m)"
  "ram_total (system_info (update_nvidia_gpu_info fl e m)) = ram_total (system_info m)"
  "ram_used (system_info (update_nvidia_gpu_info fl e m)) = ram_used (system_info m)"
  "ram_percent (system_info (update_nvidia_gpu_info fl e m)) = ram_percent (system_info m)"
  "gpu_intel_name (system_info (update_nvidia_gpu_info fl e m)) = gpu_intel_name (system_info m)"
  "gpu_intel_usage (system_info (update_nvidia_gpu_info fl e m)) = gpu_intel_usage (system_info m)"
  "gpu_intel_mem_used (system_info (update_nvidia_gpu_info fl e m)) = gpu_intel_mem_used (system_info m)"
  "gpu_nvidia_name (system_info (update_nvidia_gpu_info fl e m)) = gpu_nvidia_name (system_info m)"
  by (simp_all add: update_nvidia_gpu_info_def step_defs split: sum.split)

lemma update_intel_gpu_info_frame:
  "cpu_name (system_info (update_intel_gpu_info fl e m)) = cpu_name (system_info m)"
  "cpu_cores (system_info (update_intel_gpu_info fl e m)) = cpu_cores (system_info m)"
  "cpu_threads (system_info (update_intel_gpu_info fl e m)) = cpu_threads (system_info m)"
  "cpu_usage (system_info (update_intel_gpu_info fl e m)) = cpu_usage (system_info m)"
  "cpu_freq (system_info (update_intel_gpu_info fl e m)) = cpu_freq (system_info m)"
  "ram_total (system_info (update_intel_gpu_info fl e m)) = ram_total (system_info m)"
  "ram_used (system_info (update_intel_gpu_info fl e m)) = ram_used (system_info m)"
  "ram_percent (system_info (update_intel_gpu_info fl e m)) = ram_percent (system_info m)"
  "gpu_intel_name (system_info (update_intel_gpu_info fl e m)) = gpu_intel_name (system_info m)"
  "gpu_nvidia_name (system_info (update_intel_gpu_info fl e m)) = gpu_nvidia_name (system_info m)"
  "gpu_nvidia_usage (system_info (update_intel_gpu_info fl e m)) = gpu_nvidia_usage (system_info m)"
  "gpu_nvidia_mem_used (system_info (update_intel_gpu_info fl e m)) = gpu_nvidia_mem_used (system_info m)"
  "gpu_nvidia_mem_total (system_info (update_intel_gpu_info fl e m)) = gpu_nvidia_mem_total (system_info m)"
  "gpu_nvidia_temp (system_info (update_intel_gpu_info fl e m)) = gpu_nvidia_temp (system_info m)"
  by (simp_all add: update_intel_gpu_info_def step_defs split: sum.split)

lemma update_cpu_info_frame:
  "cpu_name (system_info (monitor_of (update_cpu_info e m))) = cpu_name (system_info m)"
  "cpu_cores (system_info (monitor_of (update_cpu_info e m))) = cpu_cores (system_info m)"
  "cpu_threads (system_info (monitor_of (update_cpu_info e m))) = cpu_threads (system_info m)"
  "ram_total (system_info (monitor_of (update_cpu_info e m))) = ram_total (system_info m)"
  "ram_used (system_info (monitor_of (update_cpu_info e m))) = ram_used (system_info m)"
  "ram_percent (system_info (monitor_of (update_cpu_info e m))) = ram_percent (system_info m)"
  "gpu_intel_name (system_info (monitor_of (update_cpu_info e m))) = gpu_intel_name (system_info m)"
  "gpu_intel_usage (system_info (monitor_of (update_cpu_info e m))) = gpu_intel_usage (system_info m)"
  "gpu_intel_mem_used (system_info (monitor_of (update_cpu_info e m))) = gpu_intel_mem_used (system_info m)"
  "gpu_nvidia_name (system_info (monitor_of (update_cpu_info e m))) = gpu_nvidia_name (system_info m)"
  "gpu_nvidia_usage (system_info (monitor_of (update_cpu_info e m))) = gpu_nvidia_usage (system_info m)"
  "gpu_nvidia_mem_used (system_info (monitor_of (update_cpu_info e m))) = gpu_nvidia_mem_used (system_info m)"
  "gpu_nvidia_mem_total (system_info (monitor_of (update_cpu_info e m))) = gpu_nvidia_mem_total (system_info m)"
  "gpu_nvidia_temp (system_info (monitor_of (update_cpu_info e m))) = gpu_nvidia_temp (system_info m)"
  by (simp_all add: update_cpu_info_def step_defs split: sum.split option.split)

lemma update_ram_info_frame:
  "cpu_name (system_info (monitor_of (update_ram_info e m))) = cpu_name (system_info m)"
  "cpu_cores (system_info (monitor_of (update_ram_info e m))) = cpu_cores (system_info m)"
  "cpu_threads (system_info (monitor_of (update_ram_info e m))) = cpu_threads (system_info m)"
  "cpu_usage (system_info (monitor_of (update_ram_info e m))) = cpu_usage (system_info m)"
  "cpu_freq (system_info (monitor_of (update_ram_info e m))) = cpu_freq (system_info m)"
  "gpu_intel_name (system_info (monitor_of (update_ram_info e m))) = gpu_intel_name (system_info m)"
  "gpu_intel_usage (system_info (monitor_of (update_ram_info e m))) = gpu_intel_usage (system_info m)"
  "gpu_intel_mem_used (system_info (monitor_of (update_ram_info e m))) = gpu_intel_mem_used (system_info m)"
  "gpu_nvidia_name (system_info (monitor_of (update_ram_info e m))) = gpu_nvidia_name (system_info m)"
  "gpu_nvidia_usage (system_info (monitor_of (update_ram_info e m))) = gpu_nvidia_usage (system_info m)"
  "gpu_nvidia_mem_used (system_info (monitor_of (update_ram_info e m))) = gpu_nvidia_mem_used (system_info m)"
  "gpu_nvidia_mem_total (system_info (monitor_of (update_ram_info e m))) = gpu_nvidia_mem_total (system_info m)"
  "gpu_nvidia_temp (system_info (monitor_of (update_ram_info e m))) = gpu_nvidia_temp (system_info m)"
  by (simp_all add: update_ram_info_def step_defs split: sum.split)

lemma update_cpu_info_Inr:
  "update_cpu_info e m = Inr m' \<Longrightarrow>
     \<exists>c. psutil_cpu_percent e = Inr c \<and> cpu_usage (system_info m') = c"
  by (auto simp: update_cpu_info_def step_defs split: sum.splits option.splits)

lemma update_cpu_info_returns:
  "psutil_cpu_percent e = Inr c \<Longrightarrow>
     \<exists>m'. update_cpu_info e m = Inr m' \<and> cpu_usage (system_info m') = c"
  by (simp add: update_cpu_info_def step_defs split: sum.split option.split)

lemma update_ram_info_Inr:
  "update_ram_info e m = Inr m' \<Longrightarrow>
     \<exists>mem. psutil_virtual_memory e = Inr mem
       \<and> ram_total (system_info m') = real_of_int (svmem_total mem) / 1024 ^ 3
       \<and> ram_used (system_info m') = real_of_int (svmem_used mem) / 1024 ^ 3
       \<and> ram_percent (system_info m') = svmem_percent mem"
  by (auto simp: update_ram_info_def step_defs split: sum.splits)

lemma update_ram_info_returns:
  "psutil_virtual_memory e = Inr mem \<Longrightarrow>
     \<exists>m'. update_ram_info e m = Inr m'
       \<and> ram_total (system_info m') = real_of_int (svmem_total mem) / 1024 ^ 3
       \<and> ram_used (system_info m') = real_of_int (svmem_used mem) / 1024 ^ 3
       \<and> ram_percent (system_info m') = svmem_percent mem"
  by (simp add: update_ram_info_def step_defs)

lemma update_all_Inr:
  "update_all fl e m = Inr m' \<Longrightarrow>
     \<exists>m1 m2. update_cpu_info e m = Inr m1 \<and> update_ram_info e m1 = Inr m2
       \<and> m' = update_nvidia_gpu_info fl e (update_intel_gpu_info fl e m2)"
  by (auto simp: update_all_def split: sum.splits)

lemma monitor_of_update_all:
  "monitor_of (update_all fl e m) =
     (case update_cpu_info e m of
        Inl x \<Rightarrow> snd x
      | Inr m1 \<Rightarrow>
          (case update_ram_info e m1 of
             Inl x \<Rightarrow> snd x
           | Inr m2 \<Rightarrow> update_nvidia_gpu_info fl e (update_intel_gpu_info fl e m2)))"
  by (auto simp: update_all_def split: sum.splits)

lemma monitor_of_update_loop_Cons:
  "monitor_of (update_loop fl (e # es) m) =
     (case update_all fl e m of
        Inl x \<Rightarrow> snd x
      | Inr m' \<Rightarrow> monitor_of (update_loop fl es m'))"
  by (auto split: sum.splits)

section \<open>The example machine, evaluated\<close>

lemmas ex_defs = ex_flags_def ex_env_1_def ex_env_2_def

lemmas run_defs = update_all_def update_cpu_info_def update_ram_info_def
  update_intel_gpu_info_def update_nvidia_gpu_info_def step_defs

lemmas init_defs = new_SystemMonitor_def init_cpu_info_def init_gpu_info_def item_def
  str_strip_def isspace_def SystemInfo_default_def step_defs

lemma ex_monitor_0_eval:
  "ex_monitor_0 =
     \<lparr>system_info =
        \<lparr>cpu_name = ''Core i5'', cpu_cores = Some 4, cpu_threads = Some 8,
         cpu_usage = 0, cpu_freq = 0, ram_total = 0, ram_used = 0, ram_percent = 0,
         gpu_intel_name = ''Intel UHD Graphics'', gpu_intel_usage = 0, gpu_intel_mem_used = 0,
         gpu_nvidia_name = ''GeForce'', gpu_nvidia_usage = 0, gpu_nvidia_mem_used = 0,
         gpu_nvidia_mem_total = 0, gpu_nvidia_temp = 0\<rparr>,
      trace =
        [Open_proc_cpuinfo, Psutil_cpu_count False, Psutil_cpu_count True, Run_lspci,
         NvmlInit, NvmlDeviceGetHandleByIndex 0, NvmlDeviceGetName 1, NvmlShutdown]\<rparr>"
  by (simp add: ex_monitor_0_def ex_defs init_defs)

lemma ex_cycle_1:
  "update_all ex_flags ex_env_1 ex_monitor_0 = Inr ex_monitor_1"
  by (simp add: ex_monitor_1_def ex_monitor_0_eval ex_defs run_defs)

lemma ex_monitor_1_eval:
  "ex_monitor_1 =
     \<lparr>system_info =
        \<lparr>cpu_name = ''Core i5'', cpu_cores = Some 4, cpu_threads = Some 8,
         cpu_usage = 12.5, cpu_freq = 2400, ram_total = 16, ram_used = 8, ram_percent = 62.5,
         gpu_intel_name = ''Intel UHD Graphics'', gpu_intel_usage = 0.3, gpu_intel_mem_used = 0,
         gpu_nvidia_name = ''GeForce'', gpu_nvidia_usage = 55, gpu_nvidia_mem_used = 2,
         gpu_nvidia_mem_total = 4, gpu_nvidia_temp = 70\<rparr>,
      trace =
        [Open_proc_cpuinfo, Psutil_cpu_count False, Psutil_cpu_count True, Run_lspci,
         NvmlInit, NvmlDeviceGetHandleByIndex 0, NvmlDeviceGetName 1, NvmlShutdown,
         Psutil_cpu_percent, Psutil_cpu_freq, Psutil_virtual_memory, Open_gt_cur_freq_mhz,
         NvmlInit, NvmlDeviceGetHandleByIndex 0, NvmlDeviceGetUtilizationRates 1,
         NvmlDeviceGetMemoryInfo 1, NvmlDeviceGetTemperature 1, NvmlShutdown]\<rparr>"
  by (simp add: ex_monitor_1_def ex_monitor_0_eval ex_defs run_defs)

section \<open>Memory in GB\<close>

text \<open>
  C8: in every snapshot that a completed cycle leaves, \<open>ram_total\<close> and \<open>ram_used\<close>
  are the total and used byte counts that \<open>psutil.virtual_memory()\<close> returned in
  that cycle, divided by \<open>1024 ^ 3\<close>.
\<close>

theorem ram_in_gb:
  assumes "update_all fl e m = Inr m'"
  shows "\<exists>mem. psutil_virtual_memory e = Inr mem
            \<and> ram_total (system_info m') = real_of_int (svmem_total mem) / 1024 ^ 3
            \<and> ram_used (system_info m') = real_of_int (svmem_used mem) / 1024 ^ 3"
proof -
  from assms obtain m1 m2 where
    ram: "update_ram_info e m1 = Inr m2" and
    m': "m' = update_nvidia_gpu_info fl e (update_intel_gpu_info fl e m2)"
    using update_all_Inr by blast
  from update_ram_info_Inr [OF ram] show ?thesis
    by (auto simp: m' update_nvidia_gpu_info_frame update_intel_gpu_info_frame)
qed

text \<open>C8 on the example machine: 16 GB and 8 GB from the byte counts.\<close>

theorem ram_in_gb_witness:
  "update_all ex_flags ex_env_1 ex_monitor_0 = Inr ex_monitor_1
   \<and> psutil_virtual_memory ex_env_1 =
       Inr \<lparr>svmem_total = 17179869184, svmem_used = 8589934592, svmem_percent = 62.5\<rparr>
   \<and> ram_total (system_info ex_monitor_1) = 17179869184 / 1024 ^ 3
   \<and> ram_used (system_info ex_monitor_1) = 8589934592 / 1024 ^ 3"
proof -
  from ram_in_gb [OF ex_cycle_1] obtain mem where
    "psutil_virtual_memory ex_env_1 = Inr mem"
    "ram_total (system_info ex_monitor_1) = real_of_int (svmem_total mem) / 1024 ^ 3"
    "ram_used (system_info ex_monitor_1) = real_of_int (svmem_used mem) / 1024 ^ 3"
    by blast
  then show ?thesis
    using ex_cycle_1 by (auto simp: ex_env_1_def)
qed

section \<open>A failing temperature query\<close>

text \<open>
  C10: when, in one NVIDIA update, the library initialises, the device handle, the
  utilization and the memory queries succeed and the temperature query raises, then
  \<open>gpu_nvidia_temp\<close> is 0 after the update, and \<open>gpu_nvidia_usage\<close>,
  \<open>gpu_nvidia_mem_used\<close> and \<open>gpu_nvidia_mem_total\<close> hold the values of this update.
\<close>

theorem nvidia_temperature_failure:
  assumes "NVIDIA_AVAILABLE fl"
    and "nvmlInit e = Inr u"
    and "nvmlDeviceGetHandleByIndex e 0 = Inr h"
    and "nvmlDeviceGetUtilizationRates e h = Inr utilization"
    and "nvmlDeviceGetMemoryInfo e h = Inr memory"
    and "nvmlDeviceGetTemperature e h = Inl x"
  shows "gpu_nvidia_temp (system_info (update_nvidia_gpu_info fl e m)) = 0
       \<and> gpu_nvidia_usage (system_info (update_nvidia_gpu_info fl e m))
           = real_of_int (util_gpu utilization)
       \<and> gpu_nvidia_mem_used (system_info (update_nvidia_gpu_info fl e m))
           = real_of_int (nvml_used memory) / 1024 ^ 3
       \<and> gpu_nvidia_mem_total (system_info (update_nvidia_gpu_info fl e m))
           = real_of_int (nvml_total memory) / 1024 ^ 3"
  using assms
  by (simp add: update_nvidia_gpu_info_def step_defs split: sum.split)

text \<open>
  C10 on the example machine, starting from a monitor that shows 70 degrees: the
  temperature goes to 0, utilization and memory are those of the cycle.
\<close>

theorem nvidia_temperature_failure_witness:
  "NVIDIA_AVAILABLE ex_flags
   \<and> nvmlInit ex_env_no_temperature = Inr ()
   \<and> nvmlDeviceGetHandleByIndex ex_env_no_temperature 0 = Inr 1
   \<and> nvmlDeviceGetUtilizationRates ex_env_no_temperature 1 = Inr \<lparr>util_gpu = 55\<rparr>
   \<and> nvmlDeviceGetMemoryInfo ex_env_no_temperature 1
       = Inr \<lparr>nvml_used = 2147483648, nvml_total = 4294967296\<rparr>
   \<and> nvmlDeviceGetTemperature ex_env_no_temperature 1 = Inl NVMLError
   \<and> gpu_nvidia_temp (system_info ex_monitor_1) = 70
   \<and> gpu_nvidia_temp (system_info (update_nvidia_gpu_info ex_flags ex_env_no_temperature ex_monitor_1)) = 0
   \<and> gpu_nvidia_usage (system_info (update_nvidia_gpu_info ex_flags ex_env_no_temperature ex_monitor_1)) = 55
   \<and> gpu_nvidia_mem_used (system_info (update_nvidia_gpu_info ex_flags ex_env_no_temperature ex_monitor_1)) = 2
   \<and> gpu_nvidia_mem_total (system_info (update_nvidia_gpu_info ex_flags ex_env_no_temperature ex_monitor_1)) = 4"
proof -
  have h1: "NVIDIA_AVAILABLE ex_flags" by (simp add: ex_defs ex_env_no_temperature_def)
  have h2: "nvmlInit ex_env_no_temperature = Inr ()" by (simp add: ex_defs ex_env_no_temperature_def)
  have h3: "nvmlDeviceGetHandleByIndex ex_env_no_temperature 0 = Inr 1" by (simp add: ex_defs ex_env_no_temperature_def)
  have h4: "nvmlDeviceGetUtilizationRates ex_env_no_temperature 1 = Inr \<lparr>util_gpu = 55\<rparr>"
    by (simp add: ex_defs ex_env_no_temperature_def)
  have h5: "nvmlDeviceGetMemoryInfo ex_env_no_temperature 1
              = Inr \<lparr>nvml_used = 2147483648, nvml_total = 4294967296\<rparr>"
    by (simp add: ex_defs ex_env_no_temperature_def)
  have h6: "nvmlDeviceGetTemperature ex_env_no_temperature 1 = Inl NVMLError"
    by (simp add: ex_defs ex_env_no_temperature_def)
  have h7: "gpu_nvidia_temp (system_info ex_monitor_1) = 70"
    by (simp add: ex_monitor_1_eval)
  from nvidia_temperature_failure [OF h1 h2 h3 h4 h5 h6, of ex_monitor_1] h1 h2 h3 h4 h5 h6 h7
  show ?thesis by simp
qed


section \<open>The identification fields\<close>

lemma static_update_cpu_info:
  "static_fields (system_info (monitor_of (update_cpu_info e m))) = static_fields (system_info m)"
  by (simp add: static_fields_def update_cpu_info_frame)

lemma static_update_ram_info:
  "static_fields (system_info (monitor_of (update_ram_info e m))) = static_fields (system_info m)"
  by (simp add: static_fields_def update_ram_info_frame)

lemma static_update_gpu_info:
  "static_fields (system_info (update_nvidia_gpu_info fl e (update_intel_gpu_info fl e m)))
     = static_fields (system_info m)"
  by (simp add: static_fields_def update_nvidia_gpu_info_frame update_intel_gpu_info_frame)

lemma static_update_all:
  "static_fields (system_info (monitor_of (update_all fl e m))) = static_fields (system_info m)"
proof (cases "update_cpu_info e m")
  case (Inl a)
  then have "monitor_of (update_all fl e m) = monitor_of (update_cpu_info e m)"
    by (cases a) (simp add: update_all_def)
  then show ?thesis by (simp add: static_update_cpu_info)
next
  case cpu: (Inr m1)
  have s1: "static_fields (system_info m1) = static_fields (system_info m)"
    using static_update_cpu_info [of e m] cpu by simp
  show ?thesis
  proof (cases "update_ram_info e m1")
    case (Inl a)
    then have "monitor_of (update_all fl e m) = monitor_of (update_ram_info e m1)"
      using cpu by (cases a) (simp add: update_all_def)
    then show ?thesis using s1 by (simp add: static_update_ram_info)
  next
    case ram: (Inr m2)
    have s2: "static_fields (system_info m2) = static_fields (system_info m1)"
      using static_update_ram_info [of e m1] ram by simp
    have "monitor_of (update_all fl e m)
            = update_nvidia_gpu_info fl e (update_intel_gpu_info fl e m2)"
      using cpu ram by (simp add: update_all_def)
    then show ?thesis using s1 s2 by (simp add: static_update_gpu_info)
  qed
qed

lemma static_update_loop:
  "static_fields (system_info (monitor_of (update_loop fl es m))) = static_fields (system_info m)"
proof (induction es arbitrary: m)
  case Nil
  show ?case by simp
next
  case (Cons e es)
  show ?case
  proof (cases "update_all fl e m")
    case (Inl a)
    then have "monitor_of (update_loop fl (e # es) m) = monitor_of (update_all fl e m)"
      by (cases a) simp
    then show ?thesis by (simp add: static_update_all)
  next
    case (Inr m')
    then have "static_fields (system_info m') = static_fields (system_info m)"
      using static_update_all [of fl e m] by simp
    with Inr Cons.IH [of m'] show ?thesis by simp
  qed
qed

text \<open>
  C9: the five identification fields (\<open>cpu_name\<close>, \<open>cpu_cores\<close>, \<open>cpu_threads\<close>,
  \<open>gpu_intel_name\<close>, \<open>gpu_nvidia_name\<close>) are the same after any call of
  \<open>update_all\<close> as before it, whether the call returns or raises; so after any
  number of cycles they are what the constructor left.
\<close>

theorem static_fields_unchanged:
  "static_fields (system_info (monitor_of (update_all fl e m))) = static_fields (system_info m)
   \<and> static_fields (system_info (monitor_of (update_loop fl es (new_SystemMonitor fl e0))))
       = static_fields (system_info (new_SystemMonitor fl e0))"
  by (simp add: static_update_all static_update_loop)

text \<open>C9 on the example machine: the names and counts of the constructor survive two cycles.\<close>

theorem static_fields_unchanged_witness:
  "static_fields (system_info (new_SystemMonitor ex_flags ex_env_1))
     = (''Core i5'', Some 4, Some 8, ''Intel UHD Graphics'', ''GeForce'')
   \<and> static_fields (system_info (monitor_of
        (update_loop ex_flags [ex_env_1, ex_env_nvml_down] (new_SystemMonitor ex_flags ex_env_1))))
     = (''Core i5'', Some 4, Some 8, ''Intel UHD Graphics'', ''GeForce'')"
proof -
  have "static_fields (system_info (new_SystemMonitor ex_flags ex_env_1))
          = (''Core i5'', Some 4, Some 8, ''Intel UHD Graphics'', ''GeForce'')"
    using ex_monitor_0_eval by (simp add: ex_monitor_0_def static_fields_def)
  then show ?thesis
    using static_fields_unchanged [of ex_flags ex_env_1 ex_monitor_0 "[ex_env_1, ex_env_nvml_down]" ex_env_1]
    by simp
qed

section \<open>A failing GPU source\<close>

lemma update_intel_gpu_info_own:
  assumes "gpu_intel_mem_used (system_info m2) = gpu_intel_mem_used (system_info m)"
  shows "gpu_intel_usage (system_info (update_intel_gpu_info fl e m2))
           = gpu_intel_usage (system_info (update_intel_gpu_info fl e m))"
    and "gpu_intel_mem_used (system_info (update_intel_gpu_info fl e m2))
           = gpu_intel_mem_used (system_info (update_intel_gpu_info fl e m))"
  using assms
  by (simp_all add: update_intel_gpu_info_def step_defs split: sum.split)

lemma update_nvidia_gpu_info_own:
  assumes "gpu_nvidia_usage (system_info m2) = gpu_nvidia_usage (system_info m)"
    and "gpu_nvidia_mem_used (system_info m2) = gpu_nvidia_mem_used (system_info m)"
    and "gpu_nvidia_mem_total (system_info m2) = gpu_nvidia_mem_total (system_info m)"
    and "gpu_nvidia_temp (system_info m2) = gpu_nvidia_temp (system_info m)"
  shows "gpu_nvidia_usage (system_info (update_nvidia_gpu_info fl e m2))
           = gpu_nvidia_usage (system_info (update_nvidia_gpu_info fl e m))"
    and "gpu_nvidia_mem_used (system_info (update_nvidia_gpu_info fl e m2))
           = gpu_nvidia_mem_used (system_info (update_nvidia_gpu_info fl e m))"
    and "gpu_nvidia_mem_total (system_info (update_nvidia_gpu_info fl e m2))
           = gpu_nvidia_mem_total (system_info (update_nvidia_gpu_info fl e m))"
    and "gpu_nvidia_temp (system_info (update_nvidia_gpu_info fl e m2))
           = gpu_nvidia_temp (system_info (update_nvidia_gpu_info fl e m))"
  using assms
  by (simp_all add: update_nvidia_gpu_info_def step_defs split: sum.split)

text \<open>
  C3: in a cycle whose CPU and memory calls return, whatever the GPU calls do (any of
  them may raise), \<open>update_all\<close> returns without raising, the CPU and memory fields
  hold the values of this cycle, the Intel fields are what the Intel update alone
  makes of them and the NVIDIA fields are what the NVIDIA update alone makes of them:
  a failure of one GPU source reaches no field of another source.
\<close>

theorem gpu_failure_isolated:
  assumes "psutil_cpu_percent e = Inr c"
    and "psutil_virtual_memory e = Inr mem"
  shows "\<exists>m'. update_all fl e m = Inr m'
     \<and> cpu_usage (system_info m') = c
     \<and> cpu_freq (system_info m') = cpu_freq (system_info (monitor_of (update_cpu_info e m)))
     \<and> ram_total (system_info m') = real_of_int (svmem_total mem) / 1024 ^ 3
     \<and> ram_used (system_info m') = real_of_int (svmem_used mem) / 1024 ^ 3
     \<and> ram_percent (system_info m') = svmem_percent mem
     \<and> gpu_intel_usage (system_info m')
         = gpu_intel_usage (system_info (update_intel_gpu_info fl e m))
     \<and> gpu_intel_mem_used (system_info m')
         = gpu_intel_mem_used (system_info (update_intel_gpu_info fl e m))
     \<and> gpu_nvidia_usage (system_info m')
         = gpu_nvidia_usage (system_info (update_nvidia_gpu_info fl e m))
     \<and> gpu_nvidia_mem_used (system_info m')
         = gpu_nvidia_mem_used (system_info (update_nvidia_gpu_info fl e m))
     \<and> gpu_nvidia_mem_total (system_info m')
         = gpu_nvidia_mem_total (system_info (update_nvidia_gpu_info fl e m))
     \<and> gpu_nvidia_temp (system_info m')
         = gpu_nvidia_temp (system_info (update_nvidia_gpu_info fl e m))"
proof -
  from update_cpu_info_returns [OF assms(1)] obtain m1 where
    cpu: "update_cpu_info e m = Inr m1" and c: "cpu_usage (system_info m1) = c"
    by blast
  from update_ram_info_returns [OF assms(2)] obtain m2 where
    ram: "update_ram_info e m1 = Inr m2"
    and r: "ram_total (system_info m2) = real_of_int (svmem_total mem) / 1024 ^ 3"
           "ram_used (system_info m2) = real_of_int (svmem_used mem) / 1024 ^ 3"
           "ram_percent (system_info m2) = svmem_percent mem"
    by blast
  define m3 where "m3 = update_intel_gpu_info fl e m2"
  define m' where "m' = update_nvidia_gpu_info fl e m3"
  have ret: "update_all fl e m = Inr m'"
    using cpu ram by (simp add: update_all_def m'_def m3_def)
  have f1: "monitor_of (update_cpu_info e m) = m1" using cpu by simp
  have f2: "monitor_of (update_ram_info e m1) = m2" using ram by simp
  have cpu_fields: "cpu_usage (system_info m') = c"
      "cpu_freq (system_info m') = cpu_freq (system_info m1)"
    using c update_ram_info_frame [of e m1]
    by (simp_all add: m'_def m3_def f2 update_nvidia_gpu_info_frame update_intel_gpu_info_frame)
  have ram_fields: "ram_total (system_info m') = real_of_int (svmem_total mem) / 1024 ^ 3"
      "ram_used (system_info m') = real_of_int (svmem_used mem) / 1024 ^ 3"
      "ram_percent (system_info m') = svmem_percent mem"
    using r
    by (simp_all add: m'_def m3_def update_nvidia_gpu_info_frame update_intel_gpu_info_frame)
  have old_intel: "gpu_intel_mem_used (system_info m2) = gpu_intel_mem_used (system_info m)"
    using update_ram_info_frame [of e m1] update_cpu_info_frame [of e m]
    by (simp add: f1 f2)
  have intel_fields:
      "gpu_intel_usage (system_info m') = gpu_intel_usage (system_info (update_intel_gpu_info fl e m))"
      "gpu_intel_mem_used (system_info m') = gpu_intel_mem_used (system_info (update_intel_gpu_info fl e m))"
    using update_intel_gpu_info_own [OF old_intel, of fl e]
    by (simp_all add: m'_def m3_def update_nvidia_gpu_info_frame)
  have old_nvidia:
      "gpu_nvidia_usage (system_info m3) = gpu_nvidia_usage (system_info m)"
      "gpu_nvidia_mem_used (system_info m3) = gpu_nvidia_mem_used (system_info m)"
      "gpu_nvidia_mem_total (system_info m3) = gpu_nvidia_mem_total (system_info m)"
      "gpu_nvidia_temp (system_info m3) = gpu_nvidia_temp (system_info m)"
    using update_ram_info_frame [of e m1] update_cpu_info_frame [of e m]
    by (simp_all add: m3_def f1 f2 update_intel_gpu_info_frame)
  have nvidia_fields:
      "gpu_nvidia_usage (system_info m') = gpu_nvidia_usage (system_info (update_nvidia_gpu_info fl e m))"
      "gpu_nvidia_mem_used (system_info m') = gpu_nvidia_mem_used (system_info (update_nvidia_gpu_info fl e m))"
      "gpu_nvidia_mem_total (system_info m') = gpu_nvidia_mem_total (system_info (update_nvidia_gpu_info fl e m))"
      "gpu_nvidia_temp (system_info m') = gpu_nvidia_temp (system_info (update_nvidia_gpu_info fl e m))"
    unfolding m'_def by (rule update_nvidia_gpu_info_own [OF old_nvidia])+
  show ?thesis
    using ret cpu_fields ram_fields intel_fields nvidia_fields f1 by simp
qed

text \<open>
  C3 on the example machine in a cycle where \<open>nvmlInit\<close> raises: the cycle returns,
  CPU, memory and Intel fields are those of the cycle.
\<close>

theorem gpu_failure_isolated_witness:
  "psutil_cpu_percent ex_env_nvml_down = Inr 90
   \<and> psutil_virtual_memory ex_env_nvml_down
       = Inr \<lparr>svmem_total = 17179869184, svmem_used = 12884901888, svmem_percent = 80\<rparr>
   \<and> nvmlInit ex_env_nvml_down = Inl NVMLError
   \<and> (\<exists>m'. update_all ex_flags ex_env_nvml_down ex_monitor_1 = Inr m'
        \<and> cpu_usage (system_info m') = 90
        \<and> cpu_freq (system_info m') = 2400
        \<and> ram_total (system_info m') = 16
        \<and> ram_used (system_info m') = 12
        \<and> ram_percent (system_info m') = 80
        \<and> gpu_intel_usage (system_info m') = 0.3)"
proof -
  have h1: "psutil_cpu_percent ex_env_nvml_down = Inr 90" by (simp add: ex_defs ex_env_nvml_down_def)
  have h2: "psutil_virtual_memory ex_env_nvml_down
       = Inr \<lparr>svmem_total = 17179869184, svmem_used = 12884901888, svmem_percent = 80\<rparr>"
    by (simp add: ex_defs ex_env_nvml_down_def)
  have h3: "nvmlInit ex_env_nvml_down = Inl NVMLError" by (simp add: ex_defs ex_env_nvml_down_def)
  have v1: "cpu_freq (system_info (monitor_of (update_cpu_info ex_env_nvml_down ex_monitor_1))) = 2400"
    by (simp add: ex_monitor_1_eval ex_defs ex_env_nvml_down_def update_cpu_info_def step_defs)
  have v2: "gpu_intel_usage (system_info (update_intel_gpu_info ex_flags ex_env_nvml_down ex_monitor_1)) = 0.3"
    by (simp add: ex_monitor_1_eval ex_defs ex_env_nvml_down_def update_intel_gpu_info_def step_defs)
  from gpu_failure_isolated [OF h1 h2, of ex_flags ex_monitor_1] obtain m' where
    "update_all ex_flags ex_env_nvml_down ex_monitor_1 = Inr m'"
    "cpu_usage (system_info m') = 90"
    "cpu_freq (system_info m') = cpu_freq (system_info (monitor_of (update_cpu_info ex_env_nvml_down ex_monitor_1)))"
    "ram_total (system_info m') = real_of_int 17179869184 / 1024 ^ 3"
    "ram_used (system_info m') = real_of_int 12884901888 / 1024 ^ 3"
    "ram_percent (system_info m') = 80"
    "gpu_intel_usage (system_info m')
         = gpu_intel_usage (system_info (update_intel_gpu_info ex_flags ex_env_nvml_down ex_monitor_1))"
    by auto
  then have "update_all ex_flags ex_env_nvml_down ex_monitor_1 = Inr m'
        \<and> cpu_usage (system_info m') = 90
        \<and> cpu_freq (system_info m') = 2400
        \<and> ram_total (system_info m') = 16
        \<and> ram_used (system_info m') = 12
        \<and> ram_percent (system_info m') = 80
        \<and> gpu_intel_usage (system_info m') = 0.3"
    using v1 v2 by simp
  then show ?thesis using h1 h2 h3 by blast
qed


section \<open>The memory scenario\<close>

text \<open>
  C7, as stated, fails: the memory source of the example machine reports 16 GB total,
  8 GB used and its own percentage 62.5 (psutil derives the percentage from available
  memory, not from \<open>used\<close>), and \<open>/data\<close> after the cycle reports \<open>ram_percent\<close> 62.5,
  more than 10 away from 50.
\<close>

theorem ram_percent_counterexample:
  "psutil_virtual_memory ex_env_1
     = Inr \<lparr>svmem_total = 16 * 1024 ^ 3, svmem_used = 8 * 1024 ^ 3, svmem_percent = 62.5\<rparr>
   \<and> update_all ex_flags ex_env_1 ex_monitor_0 = Inr ex_monitor_1
   \<and> map_of (get_data ex_monitor_1) ''ram_used'' = Some 8
   \<and> map_of (get_data ex_monitor_1) ''ram_total'' = Some 16
   \<and> map_of (get_data ex_monitor_1) ''ram_percent'' = Some 62.5
   \<and> \<not> \<bar>ram_percent (system_info ex_monitor_1) - 50\<bar> \<le> 10"
  using ex_cycle_1 by (simp add: ex_env_1_def get_data_def ex_monitor_1_eval)

text \<open>
  C7, amended: when the memory source reports 16 GB total and 8 GB used, \<open>/data\<close>
  after the cycle reports \<open>ram_used\<close> 8, \<open>ram_total\<close> 16, and as \<open>ram_percent\<close> the
  percentage that the memory source itself reported, whatever it is.
\<close>

theorem ram_scenario:
  assumes "update_all fl e m = Inr m'"
    and "psutil_virtual_memory e = Inr mem"
    and "svmem_total mem = 16 * 1024 ^ 3"
    and "svmem_used mem = 8 * 1024 ^ 3"
  shows "map_of (get_data m') ''ram_used'' = Some 8
       \<and> map_of (get_data m') ''ram_total'' = Some 16
       \<and> map_of (get_data m') ''ram_percent'' = Some (svmem_percent mem)"
proof -
  from assms(1) obtain m1 m2 where
    ram: "update_ram_info e m1 = Inr m2" and
    m': "m' = update_nvidia_gpu_info fl e (update_intel_gpu_info fl e m2)"
    using update_all_Inr by blast
  from update_ram_info_Inr [OF ram] assms(2) have
    "ram_total (system_info m2) = real_of_int (svmem_total mem) / 1024 ^ 3"
    "ram_used (system_info m2) = real_of_int (svmem_used mem) / 1024 ^ 3"
    "ram_percent (system_info m2) = svmem_percent mem"
    by auto
  then have "ram_total (system_info m') = 16" "ram_used (system_info m') = 8"
    "ram_percent (system_info m') = svmem_percent mem"
    using assms(3,4)
    by (simp_all add: m' update_nvidia_gpu_info_frame update_intel_gpu_info_frame)
  then show ?thesis by (simp add: get_data_def)
qed

text \<open>C7, amended, on the example machine.\<close>

theorem ram_scenario_witness:
  "update_all ex_flags ex_env_1 ex_monitor_0 = Inr ex_monitor_1
   \<and> psutil_virtual_memory ex_env_1
       = Inr \<lparr>svmem_total = 16 * 1024 ^ 3, svmem_used = 8 * 1024 ^ 3, svmem_percent = 62.5\<rparr>
   \<and> map_of (get_data ex_monitor_1) ''ram_used'' = Some 8
   \<and> map_of (get_data ex_monitor_1) ''ram_total'' = Some 16
   \<and> map_of (get_data ex_monitor_1) ''ram_percent'' = Some 62.5"
proof -
  have h: "psutil_virtual_memory ex_env_1
       = Inr \<lparr>svmem_total = 16 * 1024 ^ 3, svmem_used = 8 * 1024 ^ 3, svmem_percent = 62.5\<rparr>"
    by (simp add: ex_env_1_def)
  from ram_scenario [OF ex_cycle_1 h] ex_cycle_1 h show ?thesis by simp
qed

section \<open>A failing NVIDIA source and the previous values\<close>

text \<open>
  C4 at a failing input: the example monitor shows utilization 55, memory 2 of 4 GB
  and 70 degrees after its first cycle. In the next cycle \<open>nvmlInit\<close> raises; the
  handler only prints, and \<open>/data\<close> after that cycle still reports 55, 2, 4 and 70
  beside the new CPU and memory values, where the claim asks for zeros. (The Intel
  handler, the temperature handler and the frequency handler do assign 0.)
\<close>

theorem nvidia_failure_keeps_previous_values:
  "nvmlInit ex_env_nvml_down = Inl NVMLError
   \<and> get_data ex_monitor_1 =
       [(''cpu_usage'', 12.5), (''cpu_freq'', 2400), (''ram_used'', 8), (''ram_total'', 16),
        (''ram_percent'', 62.5), (''gpu_intel_usage'', 0.3), (''gpu_nvidia_usage'', 55),
        (''gpu_nvidia_mem_used'', 2), (''gpu_nvidia_mem_total'', 4), (''gpu_nvidia_temp'', 70)]
   \<and> map_sum fst get_data (update_all ex_flags ex_env_nvml_down ex_monitor_1) =
       Inr [(''cpu_usage'', 90), (''cpu_freq'', 2400), (''ram_used'', 12), (''ram_total'', 16),
            (''ram_percent'', 80), (''gpu_intel_usage'', 0.3), (''gpu_nvidia_usage'', 55),
            (''gpu_nvidia_mem_used'', 2), (''gpu_nvidia_mem_total'', 4), (''gpu_nvidia_temp'', 70)]"
  by (simp add: ex_monitor_1_eval ex_defs ex_env_nvml_down_def run_defs get_data_def)

section \<open>The invariant of the snapshot\<close>

lemma init_cpu_info_numeric:
  "cpu_usage (system_info (init_cpu_info e m)) = cpu_usage (system_info m)"
  "cpu_freq (system_info (init_cpu_info e m)) = cpu_freq (system_info m)"
  "ram_total (system_info (init_cpu_info e m)) = ram_total (system_info m)"
  "ram_used (system_info (init_cpu_info e m)) = ram_used (system_info m)"
  "ram_percent (system_info (init_cpu_info e m)) = ram_percent (system_info m)"
  "gpu_intel_usage (system_info (init_cpu_info e m)) = gpu_intel_usage (system_info m)"
  "gpu_intel_mem_used (system_info (init_cpu_info e m)) = gpu_intel_mem_used (system_info m)"
  "gpu_nvidia_usage (system_info (init_cpu_info e m)) = gpu_nvidia_usage (system_info m)"
  "gpu_nvidia_mem_used (system_info (init_cpu_info e m)) = gpu_nvidia_mem_used (system_info m)"
  "gpu_nvidia_mem_total (system_info (init_cpu_info e m)) = gpu_nvidia_mem_total (system_info m)"
  "gpu_nvidia_temp (system_info (init_cpu_info e m)) = gpu_nvidia_temp (system_info m)"
  by (simp_all add: init_cpu_info_def step_defs split: sum.split option.split)

lemma init_gpu_info_numeric:
  "cpu_usage (system_info (init_gpu_info fl e m)) = cpu_usage (system_info m)"
  "cpu_freq (system_info (init_gpu_info fl e m)) = cpu_freq (system_info m)"
  "ram_total (system_info (init_gpu_info fl e m)) = ram_total (system_info m)"
  "ram_used (system_info (init_gpu_info fl e m)) = ram_used (system_info m)"
  "ram_percent (system_info (init_gpu_info fl e m)) = ram_percent (system_info m)"
  "gpu_intel_usage (system_info (init_gpu_info fl e m)) = gpu_intel_usage (system_info m)"
  "gpu_intel_mem_used (system_info (init_gpu_info fl e m)) = gpu_intel_mem_used (system_info m)"
  "gpu_nvidia_usage (system_info (init_gpu_info fl e m)) = gpu_nvidia_usage (system_info m)"
  "gpu_nvidia_mem_used (system_info (init_gpu_info fl e m)) = gpu_nvidia_mem_used (system_info m)"
  "gpu_nvidia_mem_total (system_info (init_gpu_info fl e m)) = gpu_nvidia_mem_total (system_info m)"
  "gpu_nvidia_temp (system_info (init_gpu_info fl e m)) = gpu_nvidia_temp (system_info m)"
  by (simp_all add: init_gpu_info_def step_defs split: sum.split option.split)

lemma new_SystemMonitor_numeric:
  "cpu_usage (system_info (new_SystemMonitor fl e)) = 0"
  "cpu_freq (system_info (new_SystemMonitor fl e)) = 0"
  "ram_total (system_info (new_SystemMonitor fl e)) = 0"
  "ram_used (system_info (new_SystemMonitor fl e)) = 0"
  "ram_percent (system_info (new_SystemMonitor fl e)) = 0"
  "gpu_intel_usage (system_info (new_SystemMonitor fl e)) = 0"
  "gpu_intel_mem_used (system_info (new_SystemMonitor fl e)) = 0"
  "gpu_nvidia_usage (system_info (new_SystemMonitor fl e)) = 0"
  "gpu_nvidia_mem_used (system_info (new_SystemMonitor fl e)) = 0"
  "gpu_nvidia_mem_total (system_info (new_SystemMonitor fl e)) = 0"
  "gpu_nvidia_temp (system_info (new_SystemMonitor fl e)) = 0"
  by (simp_all add: new_SystemMonitor_def init_gpu_info_numeric init_cpu_info_numeric
      SystemInfo_default_def)

lemma snapshot_ok_update_cpu_info:
  assumes "snapshot_ok (system_info m)" and "valid_fragments e"
  shows "snapshot_ok (system_info (monitor_of (update_cpu_info e m)))"
proof (cases "psutil_cpu_percent e")
  case (Inl x)
  then show ?thesis using assms(1)
    by (simp add: update_cpu_info_def step_defs)
next
  case (Inr c)
  then have "in_percent_range c" using assms(2) by (simp add: valid_fragments_def)
  with Inr assms(1) show ?thesis
    by (simp add: update_cpu_info_def step_defs snapshot_ok_def split: sum.split option.split)
qed

lemma snapshot_ok_update_ram_info:
  assumes "snapshot_ok (system_info m)" and "valid_fragments e"
  shows "snapshot_ok (system_info (monitor_of (update_ram_info e m)))"
proof (cases "psutil_virtual_memory e")
  case (Inl x)
  then show ?thesis using assms(1)
    by (simp add: update_ram_info_def step_defs)
next
  case (Inr mem)
  then have "svmem_used mem \<le> svmem_total mem" "in_percent_range (svmem_percent mem)"
    using assms(2) by (simp_all add: valid_fragments_def)
  with Inr assms(1) show ?thesis
    by (simp add: update_ram_info_def step_defs snapshot_ok_def divide_right_mono)
qed

lemma snapshot_ok_update_intel_gpu_info:
  assumes "snapshot_ok (system_info m)" and "valid_fragments e"
  shows "snapshot_ok (system_info (update_intel_gpu_info fl e m))"
proof (cases "gt_cur_freq_mhz e")
  case (Inl x)
  then show ?thesis using assms(1)
    by (simp add: update_intel_gpu_info_def step_defs snapshot_ok_def in_percent_range_def)
next
  case (Inr freq)
  then have "0 \<le> freq" using assms(2) by (simp add: valid_fragments_def)
  with Inr assms(1) show ?thesis
    by (simp add: update_intel_gpu_info_def step_defs snapshot_ok_def in_percent_range_def)
qed

lemma snapshot_ok_update_nvidia_gpu_info:
  assumes "snapshot_ok (system_info m)" and "valid_fragments e"
  shows "snapshot_ok (system_info (update_nvidia_gpu_info fl e m))"
proof (cases "nvmlDeviceGetHandleByIndex e 0")
  case (Inl x)
  then show ?thesis using assms(1)
    by (simp add: update_nvidia_gpu_info_def step_defs split: sum.split)
next
  case h: (Inr h)
  have u: "nvmlDeviceGetUtilizationRates e h = Inr utilization
             \<Longrightarrow> in_percent_range (real_of_int (util_gpu utilization))" for utilization
    using assms(2) h by (simp add: valid_fragments_def)
  have mm: "nvmlDeviceGetMemoryInfo e h = Inr memory
             \<Longrightarrow> nvml_used memory \<le> nvml_total memory" for memory
    using assms(2) h by (simp add: valid_fragments_def)
  show ?thesis
    using assms(1) h u mm
    by (simp add: update_nvidia_gpu_info_def step_defs snapshot_ok_def divide_right_mono
        split: sum.split)
qed

lemma snapshot_ok_update_all:
  assumes "snapshot_ok (system_info m)" and "valid_fragments e"
  shows "snapshot_ok (system_info (monitor_of (update_all fl e m)))"
proof (cases "update_cpu_info e m")
  case (Inl a)
  then have "monitor_of (update_all fl e m) = monitor_of (update_cpu_info e m)"
    by (cases a) (simp add: update_all_def)
  then show ?thesis using snapshot_ok_update_cpu_info [OF assms] by simp
next
  case cpu: (Inr m1)
  have s1: "snapshot_ok (system_info m1)"
    using snapshot_ok_update_cpu_info [OF assms] cpu by simp
  show ?thesis
  proof (cases "update_ram_info e m1")
    case (Inl a)
    then have "monitor_of (update_all fl e m) = monitor_of (update_ram_info e m1)"
      using cpu by (cases a) (simp add: update_all_def)
    then show ?thesis using snapshot_ok_update_ram_info [OF s1 assms(2)] by simp
  next
    case ram: (Inr m2)
    have s2: "snapshot_ok (system_info m2)"
      using snapshot_ok_update_ram_info [OF s1 assms(2)] ram by simp
    have "monitor_of (update_all fl e m)
            = update_nvidia_gpu_info fl e (update_intel_gpu_info fl e m2)"
      using cpu ram by (simp add: update_all_def)
    then show ?thesis
      using snapshot_ok_update_nvidia_gpu_info
        [OF snapshot_ok_update_intel_gpu_info [OF s2 assms(2)] assms(2)]
      by simp
  qed
qed

lemma snapshot_ok_update_loop:
  assumes "snapshot_ok (system_info m)" and "list_all valid_fragments es"
  shows "snapshot_ok (system_info (monitor_of (update_loop fl es m)))"
  using assms
proof (induction es arbitrary: m)
  case Nil
  then show ?case by simp
next
  case (Cons e es)
  have step: "snapshot_ok (system_info (monitor_of (update_all fl e m)))"
    using Cons.prems by (simp add: snapshot_ok_update_all)
  show ?case
  proof (cases "update_all fl e m")
    case (Inl a)
    then have "monitor_of (update_loop fl (e # es) m) = monitor_of (update_all fl e m)"
      by (cases a) simp
    then show ?thesis using step by simp
  next
    case (Inr m')
    then have "snapshot_ok (system_info m')" using step by simp
    with Inr Cons.IH [of m'] Cons.prems(2) show ?thesis by simp
  qed
qed

text \<open>
  C1: for a monitor as constructed and any number of cycles in which the sources
  return valid fragments, the snapshot the last cycle leaves (also when that cycle
  raises) has \<open>ram_used \<le> ram_total\<close>,
  \<open>gpu_nvidia_mem_used \<le> gpu_nvidia_mem_total\<close> and \<open>cpu_usage\<close>, \<open>ram_percent\<close>,
  \<open>gpu_intel_usage\<close>, \<open>gpu_nvidia_usage\<close> within 0 and 100.
\<close>

theorem snapshot_invariant:
  assumes "list_all valid_fragments es"
  shows "snapshot_ok (system_info (monitor_of (update_loop fl es (new_SystemMonitor fl e0))))"
proof -
  have "snapshot_ok (system_info (new_SystemMonitor fl e0))"
    by (simp add: snapshot_ok_def in_percent_range_def new_SystemMonitor_numeric)
  then show ?thesis using assms by (rule snapshot_ok_update_loop)
qed

text \<open>C1 on the example machine: two cycles, the second with NVML failing.\<close>

theorem snapshot_invariant_witness:
  "list_all valid_fragments [ex_env_1, ex_env_nvml_down]
   \<and> snapshot_ok (system_info (monitor_of
        (update_loop ex_flags [ex_env_1, ex_env_nvml_down] (new_SystemMonitor ex_flags ex_env_1))))"
proof -
  have h: "list_all valid_fragments [ex_env_1, ex_env_nvml_down]"
    by (simp add: valid_fragments_def in_percent_range_def ex_defs ex_env_nvml_down_def)
  from snapshot_invariant [OF h, of ex_flags ex_env_1] h show ?thesis by simp
qed


section \<open>The fields of the JSON endpoint\<close>

lemma nvidia_fields_absent:
  "nvidia_absent fl e \<Longrightarrow>
     nvidia_fields (system_info (update_nvidia_gpu_info fl e m)) = nvidia_fields (system_info m)"
  by (auto simp: nvidia_absent_def update_nvidia_gpu_info_def step_defs isl_def
      split: sum.split)

lemma nvidia_fields_update_all_absent:
  assumes "nvidia_absent fl e"
  shows "nvidia_fields (system_info (monitor_of (update_all fl e m))) = nvidia_fields (system_info m)"
proof -
  have cpu: "nvidia_fields (system_info (monitor_of (update_cpu_info e m))) = nvidia_fields (system_info m)"
    for m by (simp add: nvidia_fields_def update_cpu_info_frame)
  have ram: "nvidia_fields (system_info (monitor_of (update_ram_info e m))) = nvidia_fields (system_info m)"
    for m by (simp add: nvidia_fields_def update_ram_info_frame)
  have intel: "nvidia_fields (system_info (update_intel_gpu_info fl e m)) = nvidia_fields (system_info m)"
    for m by (simp add: nvidia_fields_def update_intel_gpu_info_frame)
  show ?thesis
  proof (cases "update_cpu_info e m")
    case (Inl a)
    then have "monitor_of (update_all fl e m) = monitor_of (update_cpu_info e m)"
      by (cases a) (simp add: update_all_def)
    then show ?thesis by (simp add: cpu)
  next
    case c: (Inr m1)
    have s1: "nvidia_fields (system_info m1) = nvidia_fields (system_info m)"
      using cpu [of m] c by simp
    show ?thesis
    proof (cases "update_ram_info e m1")
      case (Inl a)
      then have "monitor_of (update_all fl e m) = monitor_of (update_ram_info e m1)"
        using c by (cases a) (simp add: update_all_def)
      then show ?thesis using s1 by (simp add: ram)
    next
      case r: (Inr m2)
      have s2: "nvidia_fields (system_info m2) = nvidia_fields (system_info m1)"
        using ram [of m1] r by simp
      have "monitor_of (update_all fl e m)
              = update_nvidia_gpu_info fl e (update_intel_gpu_info fl e m2)"
        using c r by (simp add: update_all_def)
      then show ?thesis
        using s1 s2 by (simp add: nvidia_fields_absent [OF assms] intel)
    qed
  qed
qed

lemma nvidia_fields_update_loop_absent:
  assumes "list_all (nvidia_absent fl) es"
  shows "nvidia_fields (system_info (monitor_of (update_loop fl es m))) = nvidia_fields (system_info m)"
  using assms
proof (induction es arbitrary: m)
  case Nil
  show ?case by simp
next
  case (Cons e es)
  have step: "nvidia_fields (system_info (monitor_of (update_all fl e m))) = nvidia_fields (system_info m)"
    using Cons.prems by (simp add: nvidia_fields_update_all_absent)
  show ?case
  proof (cases "update_all fl e m")
    case (Inl a)
    then have "monitor_of (update_loop fl (e # es) m) = monitor_of (update_all fl e m)"
      by (cases a) simp
    then show ?thesis using step by simp
  next
    case (Inr m')
    then have "nvidia_fields (system_info m') = nvidia_fields (system_info m)"
      using step by simp
    with Inr Cons.IH [of m'] Cons.prems show ?thesis by simp
  qed
qed

lemma intel_usage_absent:
  "intel_gpu_absent e \<Longrightarrow> gpu_intel_usage (system_info (update_intel_gpu_info fl e m)) = 0"
  by (auto simp: intel_gpu_absent_def update_intel_gpu_info_def step_defs isl_def)

lemma intel_usage_update_all_absent:
  assumes "intel_gpu_absent e" and "gpu_intel_usage (system_info m) = 0"
  shows "gpu_intel_usage (system_info (monitor_of (update_all fl e m))) = 0"
proof (cases "update_cpu_info e m")
  case (Inl a)
  then have "monitor_of (update_all fl e m) = monitor_of (update_cpu_info e m)"
    by (cases a) (simp add: update_all_def)
  then show ?thesis using assms(2) by (simp add: update_cpu_info_frame)
next
  case c: (Inr m1)
  have s1: "gpu_intel_usage (system_info m1) = 0"
    using update_cpu_info_frame(8) [of e m] c assms(2) by simp
  show ?thesis
  proof (cases "update_ram_info e m1")
    case (Inl a)
    then have "monitor_of (update_all fl e m) = monitor_of (update_ram_info e m1)"
      using c by (cases a) (simp add: update_all_def)
    then show ?thesis using s1 by (simp add: update_ram_info_frame)
  next
    case r: (Inr m2)
    have "monitor_of (update_all fl e m)
            = update_nvidia_gpu_info fl e (update_intel_gpu_info fl e m2)"
      using c r by (simp add: update_all_def)
    then show ?thesis
      by (simp add: update_nvidia_gpu_info_frame intel_usage_absent [OF assms(1)])
  qed
qed

lemma intel_usage_update_loop_absent:
  assumes "list_all intel_gpu_absent es" and "gpu_intel_usage (system_info m) = 0"
  shows "gpu_intel_usage (system_info (monitor_of (update_loop fl es m))) = 0"
  using assms
proof (induction es arbitrary: m)
  case Nil
  then show ?case by simp
next
  case (Cons e es)
  have step: "gpu_intel_usage (system_info (monitor_of (update_all fl e m))) = 0"
    using Cons.prems by (simp add: intel_usage_update_all_absent)
  show ?case
  proof (cases "update_all fl e m")
    case (Inl a)
    then have "monitor_of (update_loop fl (e # es) m) = monitor_of (update_all fl e m)"
      by (cases a) simp
    then show ?thesis using step by simp
  next
    case (Inr m')
    then have "gpu_intel_usage (system_info m') = 0" using step by simp
    with Inr Cons.IH [of m'] Cons.prems show ?thesis by simp
  qed
qed

text \<open>
  C6: the object that \<open>/data\<close> returns has exactly the ten members \<open>cpu_usage\<close>,
  \<open>cpu_freq\<close>, \<open>ram_used\<close>, \<open>ram_total\<close>, \<open>ram_percent\<close>, \<open>gpu_intel_usage\<close>,
  \<open>gpu_nvidia_usage\<close>, \<open>gpu_nvidia_mem_used\<close>, \<open>gpu_nvidia_mem_total\<close>,
  \<open>gpu_nvidia_temp\<close>, each a number. When the NVIDIA GPU is absent in every cycle
  since the constructor, the four NVIDIA members are 0; when the Intel GPU is absent in
  every cycle, \<open>gpu_intel_usage\<close> is 0.
\<close>

theorem data_fields:
  "map fst (get_data m) =
     [''cpu_usage'', ''cpu_freq'', ''ram_used'', ''ram_total'', ''ram_percent'',
      ''gpu_intel_usage'', ''gpu_nvidia_usage'', ''gpu_nvidia_mem_used'',
      ''gpu_nvidia_mem_total'', ''gpu_nvidia_temp'']
   \<and> (list_all (nvidia_absent fl) es \<longrightarrow>
        map_of (get_data (monitor_of (update_loop fl es (new_SystemMonitor fl e0))))
          ''gpu_nvidia_usage'' = Some 0
      \<and> map_of (get_data (monitor_of (update_loop fl es (new_SystemMonitor fl e0))))
          ''gpu_nvidia_mem_used'' = Some 0
      \<and> map_of (get_data (monitor_of (update_loop fl es (new_SystemMonitor fl e0))))
          ''gpu_nvidia_mem_total'' = Some 0
      \<and> map_of (get_data (monitor_of (update_loop fl es (new_SystemMonitor fl e0))))
          ''gpu_nvidia_temp'' = Some 0)
   \<and> (list_all intel_gpu_absent es \<longrightarrow>
        map_of (get_data (monitor_of (update_loop fl es (new_SystemMonitor fl e0))))
          ''gpu_intel_usage'' = Some 0)"
proof -
  have keys: "map fst (get_data m) =
     [''cpu_usage'', ''cpu_freq'', ''ram_used'', ''ram_total'', ''ram_percent'',
      ''gpu_intel_usage'', ''gpu_nvidia_usage'', ''gpu_nvidia_mem_used'',
      ''gpu_nvidia_mem_total'', ''gpu_nvidia_temp'']"
    by (simp add: get_data_def)
  have nvidia: "nvidia_fields (system_info (monitor_of (update_loop fl es (new_SystemMonitor fl e0))))
                  = (0, 0, 0, 0)"
    if "list_all (nvidia_absent fl) es"
    using nvidia_fields_update_loop_absent [OF that, of "new_SystemMonitor fl e0"]
    by (simp add: nvidia_fields_def new_SystemMonitor_numeric)
  have intel: "gpu_intel_usage (system_info (monitor_of (update_loop fl es (new_SystemMonitor fl e0)))) = 0"
    if "list_all intel_gpu_absent es"
    using that by (rule intel_usage_update_loop_absent) (simp add: new_SystemMonitor_numeric)
  show ?thesis
    using keys nvidia intel by (simp add: get_data_def nvidia_fields_def)
qed

text \<open>
  C6 on the example machine without any GPU: two cycles after the constructor, the
  five GPU members are 0.
\<close>

theorem data_fields_witness:
  "list_all (nvidia_absent ex_flags) [ex_env_no_gpu, ex_env_no_gpu]
   \<and> list_all intel_gpu_absent [ex_env_no_gpu, ex_env_no_gpu]
   \<and> map fst (get_data ex_monitor_1) =
       [''cpu_usage'', ''cpu_freq'', ''ram_used'', ''ram_total'', ''ram_percent'',
        ''gpu_intel_usage'', ''gpu_nvidia_usage'', ''gpu_nvidia_mem_used'',
        ''gpu_nvidia_mem_total'', ''gpu_nvidia_temp'']
   \<and> map_of (get_data (monitor_of (update_loop ex_flags [ex_env_no_gpu, ex_env_no_gpu]
        (new_SystemMonitor ex_flags ex_env_no_gpu)))) ''gpu_nvidia_usage'' = Some 0
   \<and> map_of (get_data (monitor_of (update_loop ex_flags [ex_env_no_gpu, ex_env_no_gpu]
        (new_SystemMonitor ex_flags ex_env_no_gpu)))) ''gpu_nvidia_mem_used'' = Some 0
   \<and> map_of (get_data (monitor_of (update_loop ex_flags [ex_env_no_gpu, ex_env_no_gpu]
        (new_SystemMonitor ex_flags ex_env_no_gpu)))) ''gpu_nvidia_mem_total'' = Some 0
   \<and> map_of (get_data (monitor_of (update_loop ex_flags [ex_env_no_gpu, ex_env_no_gpu]
        (new_SystemMonitor ex_flags ex_env_no_gpu)))) ''gpu_nvidia_temp'' = Some 0
   \<and> map_of (get_data (monitor_of (update_loop ex_flags [ex_env_no_gpu, ex_env_no_gpu]
        (new_SystemMonitor ex_flags ex_env_no_gpu)))) ''gpu_intel_usage'' = Some 0"
proof -
  have h1: "list_all (nvidia_absent ex_flags) [ex_env_no_gpu, ex_env_no_gpu]"
    by (simp add: nvidia_absent_def ex_defs ex_env_no_gpu_def)
  have h2: "list_all intel_gpu_absent [ex_env_no_gpu, ex_env_no_gpu]"
    by (simp add: intel_gpu_absent_def ex_defs ex_env_no_gpu_def)
  from data_fields [of ex_monitor_1 ex_flags "[ex_env_no_gpu, ex_env_no_gpu]" ex_env_no_gpu] h1 h2
  show ?thesis by blast
qed

section \<open>Probing the NVIDIA library\<close>

text \<open>
  C5, as stated, fails when the library is installed and no device is found: the
  constructor's \<open>nvmlDeviceGetHandleByIndex\<close> raises and leaves the name empty, the
  flag stays true, and the next cycle calls \<open>nvmlInit\<close> and
  \<open>nvmlDeviceGetHandleByIndex\<close> again.
\<close>

theorem nvidia_probed_again_counterexample:
  "NVIDIA_AVAILABLE ex_flags
   \<and> nvmlDeviceGetHandleByIndex ex_env_no_device 0 = Inl NVMLError
   \<and> gpu_nvidia_name (system_info (new_SystemMonitor ex_flags ex_env_no_device)) = []
   \<and> trace (new_SystemMonitor ex_flags ex_env_no_device) =
       [Open_proc_cpuinfo, Psutil_cpu_count False, Psutil_cpu_count True, Run_lspci,
        NvmlInit, NvmlDeviceGetHandleByIndex 0]
   \<and> map_sum fst trace
        (update_all ex_flags ex_env_no_device (new_SystemMonitor ex_flags ex_env_no_device)) =
       Inr [Open_proc_cpuinfo, Psutil_cpu_count False, Psutil_cpu_count True, Run_lspci,
            NvmlInit, NvmlDeviceGetHandleByIndex 0,
            Psutil_cpu_percent, Psutil_cpu_freq, Psutil_virtual_memory, Open_gt_cur_freq_mhz,
            NvmlInit, NvmlDeviceGetHandleByIndex 0]"
  by (simp add: ex_defs ex_env_no_device_def init_defs run_defs)

lemma no_nvml_init:
  "\<not> NVIDIA_AVAILABLE fl \<Longrightarrow> filter is_nvml (trace (new_SystemMonitor fl e)) = []"
  by (simp add: new_SystemMonitor_def init_cpu_info_def init_gpu_info_def step_defs
      split: sum.split option.split)

lemma no_nvml_update_all:
  assumes "\<not> NVIDIA_AVAILABLE fl"
  shows "filter is_nvml (trace (monitor_of (update_all fl e m))) = filter is_nvml (trace m)"
proof -
  have nvidia: "update_nvidia_gpu_info fl e m = m" for m
    using assms by (simp add: update_nvidia_gpu_info_def)
  have intel: "filter is_nvml (trace (update_intel_gpu_info fl e m)) = filter is_nvml (trace m)" for m
    by (simp add: update_intel_gpu_info_def step_defs split: sum.split)
  have cpu: "filter is_nvml (trace (monitor_of (update_cpu_info e m))) = filter is_nvml (trace m)" for m
    by (simp add: update_cpu_info_def step_defs split: sum.split option.split)
  have ram: "filter is_nvml (trace (monitor_of (update_ram_info e m))) = filter is_nvml (trace m)" for m
    by (simp add: update_ram_info_def step_defs split: sum.split)
  show ?thesis
  proof (cases "update_cpu_info e m")
    case (Inl a)
    then have "monitor_of (update_all fl e m) = monitor_of (update_cpu_info e m)"
      by (cases a) (simp add: update_all_def)
    then show ?thesis by (simp add: cpu)
  next
    case c: (Inr m1)
    have s1: "filter is_nvml (trace m1) = filter is_nvml (trace m)"
      using cpu [of m] c by simp
    show ?thesis
    proof (cases "update_ram_info e m1")
      case (Inl a)
      then have "monitor_of (update_all fl e m) = monitor_of (update_ram_info e m1)"
        using c by (cases a) (simp add: update_all_def)
      then show ?thesis using s1 by (simp add: ram)
    next
      case r: (Inr m2)
      have s2: "filter is_nvml (trace m2) = filter is_nvml (trace m1)"
        using ram [of m1] r by simp
      have "monitor_of (update_all fl e m) = update_intel_gpu_info fl e m2"
        using c r by (simp add: update_all_def nvidia)
      then show ?thesis using s1 s2 by (simp add: intel)
    qed
  qed
qed

lemma no_nvml_update_loop:
  assumes "\<not> NVIDIA_AVAILABLE fl"
  shows "filter is_nvml (trace (monitor_of (update_loop fl es m))) = filter is_nvml (trace m)"
proof (induction es arbitrary: m)
  case Nil
  show ?case by simp
next
  case (Cons e es)
  have step: "filter is_nvml (trace (monitor_of (update_all fl e m))) = filter is_nvml (trace m)"
    using assms by (rule no_nvml_update_all)
  show ?case
  proof (cases "update_all fl e m")
    case (Inl a)
    then have "monitor_of (update_loop fl (e # es) m) = monitor_of (update_all fl e m)"
      by (cases a) simp
    then show ?thesis using step by simp
  next
    case (Inr m')
    then have "filter is_nvml (trace m') = filter is_nvml (trace m)" using step by simp
    with Inr Cons.IH [of m'] show ?thesis by simp
  qed
qed

text \<open>
  C5, amended: if the vendor library is absent at import, so that
  \<open>NVIDIA_AVAILABLE\<close> is false, then neither the constructor nor any later update
  cycle makes a call into NVML.
\<close>

theorem no_pynvml_no_probe:
  assumes "\<not> NVIDIA_AVAILABLE fl"
  shows "filter is_nvml (trace (monitor_of (update_loop fl es (new_SystemMonitor fl e0)))) = []"
  using no_nvml_update_loop [OF assms, of es "new_SystemMonitor fl e0"] no_nvml_init [OF assms, of e0]
  by simp

text \<open>C5, amended, on the example machine without the library: two cycles, no NVML call.\<close>

theorem no_pynvml_no_probe_witness:
  "\<not> NVIDIA_AVAILABLE ex_flags_no_pynvml
   \<and> filter is_nvml (trace (monitor_of
        (update_loop ex_flags_no_pynvml [ex_env_1, ex_env_2]
           (new_SystemMonitor ex_flags_no_pynvml ex_env_1)))) = []"
proof -
  have h: "\<not> NVIDIA_AVAILABLE ex_flags_no_pynvml" by (simp add: ex_defs ex_flags_no_pynvml_def)
  from no_pynvml_no_probe [OF h, of "[ex_env_1, ex_env_2]" ex_env_1] h show ?thesis by simp
qed

section \<open>Reading during a cycle\<close>

text \<open>
  C2, as stated, fails: there is no separate snapshot and no swap; \<open>update_all\<close>
  assigns the fields of the one shared object call after call. On the example machine,
  a \<open>/data\<close> request served in the second cycle after \<open>update_ram_info\<close> and before the
  GPU updates returns the second cycle's CPU and memory values with the first cycle's
  NVIDIA values: neither the snapshot of the first cycle nor that of the second.
\<close>

theorem torn_read_counterexample:
  "update_all ex_flags ex_env_1 ex_monitor_0 = Inr ex_monitor_1
   \<and> get_data ex_monitor_1 =
       [(''cpu_usage'', 12.5), (''cpu_freq'', 2400), (''ram_used'', 8), (''ram_total'', 16),
        (''ram_percent'', 62.5), (''gpu_intel_usage'', 0.3), (''gpu_nvidia_usage'', 55),
        (''gpu_nvidia_mem_used'', 2), (''gpu_nvidia_mem_total'', 4), (''gpu_nvidia_temp'', 70)]
   \<and> map_sum fst get_data (update_all ex_flags ex_env_2 ex_monitor_1) =
       Inr [(''cpu_usage'', 90), (''cpu_freq'', 2400), (''ram_used'', 12), (''ram_total'', 16),
            (''ram_percent'', 80), (''gpu_intel_usage'', 0.3), (''gpu_nvidia_usage'', 80),
            (''gpu_nvidia_mem_used'', 3), (''gpu_nvidia_mem_total'', 4), (''gpu_nvidia_temp'', 75)]
   \<and> cycle_points ex_flags ex_env_2 ex_monitor_1 ! 2
       \<in> set (cycle_points ex_flags ex_env_2 ex_monitor_1)
   \<and> get_data (cycle_points ex_flags ex_env_2 ex_monitor_1 ! 2) =
       [(''cpu_usage'', 90), (''cpu_freq'', 2400), (''ram_used'', 12), (''ram_total'', 16),
        (''ram_percent'', 80), (''gpu_intel_usage'', 0.3), (''gpu_nvidia_usage'', 55),
        (''gpu_nvidia_mem_used'', 2), (''gpu_nvidia_mem_total'', 4), (''gpu_nvidia_temp'', 70)]"
proof -
  have a: "get_data ex_monitor_1 =
       [(''cpu_usage'', 12.5), (''cpu_freq'', 2400), (''ram_used'', 8), (''ram_total'', 16),
        (''ram_percent'', 62.5), (''gpu_intel_usage'', 0.3), (''gpu_nvidia_usage'', 55),
        (''gpu_nvidia_mem_used'', 2), (''gpu_nvidia_mem_total'', 4), (''gpu_nvidia_temp'', 70)]"
    by (simp add: ex_monitor_1_eval get_data_def)
  have b: "map_sum fst get_data (update_all ex_flags ex_env_2 ex_monitor_1) =
       Inr [(''cpu_usage'', 90), (''cpu_freq'', 2400), (''ram_used'', 12), (''ram_total'', 16),
            (''ram_percent'', 80), (''gpu_intel_usage'', 0.3), (''gpu_nvidia_usage'', 80),
            (''gpu_nvidia_mem_used'', 3), (''gpu_nvidia_mem_total'', 4), (''gpu_nvidia_temp'', 75)]"
    by (simp add: ex_monitor_1_eval ex_defs run_defs get_data_def)
  have c: "cycle_points ex_flags ex_env_2 ex_monitor_1 ! 2
       \<in> set (cycle_points ex_flags ex_env_2 ex_monitor_1)"
    by (simp add: cycle_points_def update_cpu_info_def update_ram_info_def ex_defs step_defs)
  have d: "get_data (cycle_points ex_flags ex_env_2 ex_monitor_1 ! 2) =
       [(''cpu_usage'', 90), (''cpu_freq'', 2400), (''ram_used'', 12), (''ram_total'', 16),
        (''ram_percent'', 80), (''gpu_intel_usage'', 0.3), (''gpu_nvidia_usage'', 55),
        (''gpu_nvidia_mem_used'', 2), (''gpu_nvidia_mem_total'', 4), (''gpu_nvidia_temp'', 70)]"
    by (simp add: cycle_points_def update_cpu_info_def update_ram_info_def ex_monitor_1_eval
        ex_defs step_defs get_data_def)
  from ex_cycle_1 a b c d show ?thesis by blast
qed

text \<open>
  C2, amended: each cycle assigns the fields of the one shared \<open>SystemInfo\<close> in
  place, one source after another. In every cycle whose CPU and memory calls return,
  the object stands, between \<open>update_ram_info\<close> and the GPU updates, with the CPU and
  memory values of this cycle and the GPU values the previous cycle left, and a
  \<open>/data\<close> request served there returns that mixture; the last state of the cycle is
  the one \<open>update_all\<close> leaves.
\<close>

theorem read_between_updates:
  assumes "psutil_cpu_percent e = Inr c"
    and "psutil_virtual_memory e = Inr mem"
  shows "(\<exists>p \<in> set (cycle_points fl e m).
            get_data p =
              [(''cpu_usage'', c),
               (''cpu_freq'', cpu_freq (system_info (monitor_of (update_cpu_info e m)))),
               (''ram_used'', real_of_int (svmem_used mem) / 1024 ^ 3),
               (''ram_total'', real_of_int (svmem_total mem) / 1024 ^ 3),
               (''ram_percent'', svmem_percent mem),
               (''gpu_intel_usage'', gpu_intel_usage (system_info m)),
               (''gpu_nvidia_usage'', gpu_nvidia_usage (system_info m)),
               (''gpu_nvidia_mem_used'', gpu_nvidia_mem_used (system_info m)),
               (''gpu_nvidia_mem_total'', gpu_nvidia_mem_total (system_info m)),
               (''gpu_nvidia_temp'', gpu_nvidia_temp (system_info m))])
       \<and> last (cycle_points fl e m) = monitor_of (update_all fl e m)"
proof -
  from update_cpu_info_returns [OF assms(1)] obtain m1 where
    cpu: "update_cpu_info e m = Inr m1" and c: "cpu_usage (system_info m1) = c"
    by blast
  from update_ram_info_returns [OF assms(2)] obtain m2 where
    ram: "update_ram_info e m1 = Inr m2"
    and r: "ram_total (system_info m2) = real_of_int (svmem_total mem) / 1024 ^ 3"
           "ram_used (system_info m2) = real_of_int (svmem_used mem) / 1024 ^ 3"
           "ram_percent (system_info m2) = svmem_percent mem"
    by blast
  have f1: "monitor_of (update_cpu_info e m) = m1" using cpu by simp
  have f2: "monitor_of (update_ram_info e m1) = m2" using ram by simp
  have points: "cycle_points fl e m =
      [m, m1, m2, update_intel_gpu_info fl e m2,
       update_nvidia_gpu_info fl e (update_intel_gpu_info fl e m2)]"
    using cpu ram by (simp add: cycle_points_def)
  have mem: "m2 \<in> set (cycle_points fl e m)" by (simp add: points)
  have "get_data m2 =
              [(''cpu_usage'', c),
               (''cpu_freq'', cpu_freq (system_info m1)),
               (''ram_used'', real_of_int (svmem_used mem) / 1024 ^ 3),
               (''ram_total'', real_of_int (svmem_total mem) / 1024 ^ 3),
               (''ram_percent'', svmem_percent mem),
               (''gpu_intel_usage'', gpu_intel_usage (system_info m)),
               (''gpu_nvidia_usage'', gpu_nvidia_usage (system_info m)),
               (''gpu_nvidia_mem_used'', gpu_nvidia_mem_used (system_info m)),
               (''gpu_nvidia_mem_total'', gpu_nvidia_mem_total (system_info m)),
               (''gpu_nvidia_temp'', gpu_nvidia_temp (system_info m))]"
    using c r update_ram_info_frame [of e m1] update_cpu_info_frame [of e m]
    by (simp add: get_data_def f1 f2)
  with mem f1 have first: "\<exists>p \<in> set (cycle_points fl e m).
            get_data p =
              [(''cpu_usage'', c),
               (''cpu_freq'', cpu_freq (system_info (monitor_of (update_cpu_info e m)))),
               (''ram_used'', real_of_int (svmem_used mem) / 1024 ^ 3),
               (''ram_total'', real_of_int (svmem_total mem) / 1024 ^ 3),
               (''ram_percent'', svmem_percent mem),
               (''gpu_intel_usage'', gpu_intel_usage (system_info m)),
               (''gpu_nvidia_usage'', gpu_nvidia_usage (system_info m)),
               (''gpu_nvidia_mem_used'', gpu_nvidia_mem_used (system_info m)),
               (''gpu_nvidia_mem_total'', gpu_nvidia_mem_total (system_info m)),
               (''gpu_nvidia_temp'', gpu_nvidia_temp (system_info m))]"
    by auto
  have "last (cycle_points fl e m) = monitor_of (update_all fl e m)"
    using cpu ram by (simp add: points update_all_def)
  with first show ?thesis by blast
qed

text \<open>C2, amended, in the second cycle of the example machine.\<close>

theorem read_between_updates_witness:
  "psutil_cpu_percent ex_env_2 = Inr 90
   \<and> psutil_virtual_memory ex_env_2
       = Inr \<lparr>svmem_total = 17179869184, svmem_used = 12884901888, svmem_percent = 80\<rparr>
   \<and> (\<exists>p \<in> set (cycle_points ex_flags ex_env_2 ex_monitor_1).
        get_data p =
          [(''cpu_usage'', 90), (''cpu_freq'', 2400), (''ram_used'', 12), (''ram_total'', 16),
           (''ram_percent'', 80), (''gpu_intel_usage'', 0.3), (''gpu_nvidia_usage'', 55),
           (''gpu_nvidia_mem_used'', 2), (''gpu_nvidia_mem_total'', 4), (''gpu_nvidia_temp'', 70)])"
proof -
  have h1: "psutil_cpu_percent ex_env_2 = Inr 90" by (simp add: ex_defs)
  have h2: "psutil_virtual_memory ex_env_2
       = Inr \<lparr>svmem_total = 17179869184, svmem_used = 12884901888, svmem_percent = 80\<rparr>"
    by (simp add: ex_defs)
  have v: "cpu_freq (system_info (monitor_of (update_cpu_info ex_env_2 ex_monitor_1))) = 2400"
    by (simp add: ex_monitor_1_eval ex_defs update_cpu_info_def step_defs)
  have g: "gpu_intel_usage (system_info ex_monitor_1) = 0.3"
    "gpu_nvidia_usage (system_info ex_monitor_1) = 55"
    "gpu_nvidia_mem_used (system_info ex_monitor_1) = 2"
    "gpu_nvidia_mem_total (system_info ex_monitor_1) = 4"
    "gpu_nvidia_temp (system_info ex_monitor_1) = 70"
    by (simp_all add: ex_monitor_1_eval)
  from read_between_updates [OF h1 h2, of ex_flags ex_monitor_1]
  have "\<exists>p \<in> set (cycle_points ex_flags ex_env_2 ex_monitor_1).
        get_data p =
          [(''cpu_usage'', 90), (''cpu_freq'', 2400), (''ram_used'', 12), (''ram_total'', 16),
           (''ram_percent'', 80), (''gpu_intel_usage'', 0.3), (''gpu_nvidia_usage'', 55),
           (''gpu_nvidia_mem_used'', 2), (''gpu_nvidia_mem_total'', 4), (''gpu_nvidia_temp'', 70)]"
    by (simp add: v g)
  with h1 h2 show ?thesis by blast
qed

end
